theory Spec2Isabelle
  imports Main "HOL-Library.Sublist"
begin

section \<open>JavaScript values, strings and thrown values\<close>

text \<open>
  A JavaScript string is a list of code units; the model keeps the code units below
  \<open>0x100\<close>, one \<^typ>\<open>char\<close> each. A Number is kept as the text that the engine's
  Number-to-string conversion gives for it (\<open>''NaN''\<close>, \<open>''Infinity''\<close> and
  \<open>''-Infinity''\<close> for the values that are not finite); a BigInt is an unbounded integer.
  Values are plain data: trees of arrays and objects (own enumerable string-keyed
  properties, in property order) without \<open>toJSON\<close> methods.
\<close>

datatype jsvalue =
    JUndefined
  | JNull
  | JBoolean bool
  | JNumber string
  | JBigInt int
  | JString string
  | JArray "jsvalue list"
  | JObject "(string \<times> jsvalue) list"

text \<open>
  What a \<open>catch\<close> clause can receive (\<open>error: unknown\<close>):
  \<^item> \<open>NonError v\<close>: a value that is not an \<open>Error\<close> instance, plain data;
  \<^item> \<open>NoStringForm e\<close>: a value that is not an \<open>Error\<close> instance and has no string
    form: \<open>String(value)\<close> throws \<open>e\<close> (a \<open>TypeError\<close> for an object with no callable
    \<open>toString\<close> or \<open>valueOf\<close>, such as \<open>Object.create(null)\<close>; what its \<open>toString\<close>
    throws otherwise);
  \<^item> \<open>ErrorObj message\<close>: an \<open>Error\<close> instance that is not an \<open>McpError\<close>, with its
    \<open>message\<close> property;
  \<^item> \<open>McpError code message\<close>: an \<open>McpError\<close>, with its \<open>code\<close> and \<open>message\<close>.

  The \<open>message\<close> property is a string by its TypeScript type only: at run time it
  holds any value (a subclass may assign it from data; \<open>undefined\<close> where none was
  given).
\<close>

datatype thrown =
    NonError jsvalue
  | NoStringForm thrown
  | ErrorObj jsvalue
  | McpError int jsvalue

definition instanceof_Error :: "thrown \<Rightarrow> bool" where
  "instanceof_Error error =
     (case error of
        NonError v \<Rightarrow> False | NoStringForm e \<Rightarrow> False
      | ErrorObj m \<Rightarrow> True | McpError c m \<Rightarrow> True)"

text \<open>The \<open>ErrorCode\<close> enumeration of the protocol SDK (JSON-RPC 2.0 error codes).\<close>

definition ErrorCode_MethodNotFound :: int where
  "ErrorCode_MethodNotFound = - 32601"

definition ErrorCode_InternalError :: int where
  "ErrorCode_InternalError = - 32603"

subsection \<open>Decimal text of integers\<close>

definition digit_char :: "nat \<Rightarrow> char" where
  "digit_char d = ''0123456789'' ! d"

function nat_toString :: "nat \<Rightarrow> string" where
  "nat_toString n =
     (if n < 10 then [digit_char n] else nat_toString (n div 10) @ [digit_char (n mod 10)])"
  by pat_completeness auto
termination
  by (relation "measure id") auto

declare nat_toString.simps [simp del]

text \<open>\<open>BigInt.prototype.toString()\<close>, and Number-to-string on an integer code.\<close>

definition int_toString :: "int \<Rightarrow> string" where
  "int_toString i =
     (if i < 0 then CHR ''-'' # nat_toString (nat (- i)) else nat_toString (nat i))"

subsection \<open>String operations\<close>

text \<open>\<open>String.prototype.toLowerCase\<close> on the code units below \<open>0x100\<close>: the letters
  \<open>A-Z\<close> and the capital letters of \<open>U+00C0..U+00DE\<close> (the multiplication sign
  \<open>U+00D7\<close> apart) move up by \<open>0x20\<close>.\<close>

definition toLowerCase_char :: "char \<Rightarrow> char" where
  "toLowerCase_char c =
     (let n = (of_char c :: nat) in
      if (65 \<le> n \<and> n \<le> 90) \<or> (192 \<le> n \<and> n \<le> 222 \<and> n \<noteq> 215)
      then char_of (n + 32) else c)"

definition toLowerCase :: "string \<Rightarrow> string" where
  "toLowerCase s = map toLowerCase_char s"

text \<open>\<open>String.prototype.includes\<close>: the search string occurs at some position.\<close>

fun String_includes :: "string \<Rightarrow> string \<Rightarrow> bool" where
  "String_includes [] searchString = (searchString = [])"
| "String_includes (c # cs) searchString =
     (prefix searchString (c # cs) \<or> String_includes cs searchString)"

fun join :: "string \<Rightarrow> string list \<Rightarrow> string" where
  "join sep [] = []"
| "join sep [x] = x"
| "join sep (x # y # ys) = x @ sep @ join sep (y # ys)"

text \<open>\<open>String(value)\<close> on plain data: \<open>Array.prototype.toString\<close> joins the elements
  with commas (\<open>undefined\<close> and \<open>null\<close> give the empty string), a plain object gives
  \<open>[object Object]\<close>.\<close>

fun ToString :: "jsvalue \<Rightarrow> string" where
  "ToString JUndefined = ''undefined''"
| "ToString JNull = ''null''"
| "ToString (JBoolean b) = (if b then ''true'' else ''false'')"
| "ToString (JNumber t) = t"
| "ToString (JBigInt n) = int_toString n"
| "ToString (JString s) = s"
| "ToString (JArray xs) =
     join '','' (map (\<lambda>x. case x of JUndefined \<Rightarrow> [] | JNull \<Rightarrow> [] | _ \<Rightarrow> ToString x) xs)"
| "ToString (JObject ps) = ''[object Object]''"

section \<open>\<open>JSON.stringify\<close>\<close>

definition hex_digit :: "nat \<Rightarrow> char" where
  "hex_digit d = ''0123456789abcdef'' ! d"

definition quote_char :: "char \<Rightarrow> string" where
  "quote_char c =
     (let n = (of_char c :: nat) in
      if n = 8 then [CHR 0x5C, CHR ''b'']
      else if n = 9 then [CHR 0x5C, CHR ''t'']
      else if n = 10 then [CHR 0x5C, CHR ''n'']
      else if n = 12 then [CHR 0x5C, CHR ''f'']
      else if n = 13 then [CHR 0x5C, CHR ''r'']
      else if n = 34 then [CHR 0x5C, CHR 0x22]
      else if n = 92 then [CHR 0x5C, CHR 0x5C]
      else if n < 32 then
        [CHR 0x5C, CHR ''u'', CHR ''0'', CHR ''0'', hex_digit (n div 16), hex_digit (n mod 16)]
      else [c])"

definition QuoteJSONString :: "string \<Rightarrow> string" where
  "QuoteJSONString s = [CHR 0x22] @ concat (map quote_char s) @ [CHR 0x22]"

text \<open>The replacer that \<open>serializeResult\<close> passes:
  \<^verbatim>\<open>(key, value) => typeof value === 'bigint' ? value.toString() : value\<close>.\<close>

definition replacer :: "string \<Rightarrow> jsvalue \<Rightarrow> jsvalue" where
  "replacer key v = (case v of JBigInt n \<Rightarrow> JString (int_toString n) | _ \<Rightarrow> v)"

text \<open>
  The serialization of ECMAScript's \<open>JSON.stringify\<close> with no indentation. The flag says
  whether the replacer above is passed (\<open>serializeResult\<close>) or none (\<open>handleError\<close>).
  \<open>SerializeJSONProperty\<close> gives \<open>undefined\<close> as \<open>None\<close>; a BigInt that reaches the
  serializer raises a \<open>TypeError\<close>. \<open>SerializeJSONArray\<close> and \<open>SerializeJSONObject\<close>
  return the list \<open>partial\<close> of the standard's loops.
\<close>

function SerializeJSONProperty :: "bool \<Rightarrow> string \<Rightarrow> jsvalue \<Rightarrow> thrown + string option"
  and SerializeJSONArray :: "bool \<Rightarrow> nat \<Rightarrow> jsvalue list \<Rightarrow> thrown + string list"
  and SerializeJSONObject :: "bool \<Rightarrow> (string \<times> jsvalue) list \<Rightarrow> thrown + string list"
where
  "SerializeJSONProperty rep key v =
     (case (if rep then replacer key v else v) of
        JUndefined \<Rightarrow> Inr None
      | JNull \<Rightarrow> Inr (Some ''null'')
      | JBoolean b \<Rightarrow> Inr (Some (if b then ''true'' else ''false''))
      | JNumber t \<Rightarrow>
          Inr (Some (if t \<in> {''NaN'', ''Infinity'', ''-Infinity''} then ''null'' else t))
      | JBigInt n \<Rightarrow> Inl (ErrorObj (JString ''Do not know how to serialize a BigInt''))
      | JString s \<Rightarrow> Inr (Some (QuoteJSONString s))
      | JArray xs \<Rightarrow>
          (case SerializeJSONArray rep 0 xs of
             Inl e \<Rightarrow> Inl e
           | Inr partial \<Rightarrow> Inr (Some (''['' @ join '','' partial @ '']'')))
      | JObject ps \<Rightarrow>
          (case SerializeJSONObject rep ps of
             Inl e \<Rightarrow> Inl e
           | Inr partial \<Rightarrow> Inr (Some (''{'' @ join '','' partial @ ''}''))))"
| "SerializeJSONArray rep index [] = Inr []"
| "SerializeJSONArray rep index (x # xs) =
     (case SerializeJSONProperty rep (nat_toString index) x of
        Inl e \<Rightarrow> Inl e
      | Inr strP \<Rightarrow>
          (case SerializeJSONArray rep (index + 1) xs of
             Inl e \<Rightarrow> Inl e
           | Inr partial \<Rightarrow> Inr ((case strP of None \<Rightarrow> ''null'' | Some t \<Rightarrow> t) # partial)))"
| "SerializeJSONObject rep [] = Inr []"
| "SerializeJSONObject rep ((P, x) # ps) =
     (case SerializeJSONProperty rep P x of
        Inl e \<Rightarrow> Inl e
      | Inr strP \<Rightarrow>
          (case SerializeJSONObject rep ps of
             Inl e \<Rightarrow> Inl e
           | Inr partial \<Rightarrow>
               Inr ((case strP of None \<Rightarrow> [] | Some t \<Rightarrow> [QuoteJSONString P @ '':'' @ t])
                    @ partial)))"
  by pat_completeness auto
termination
  apply (relation "measure (\<lambda>x. case x of
      Inl (rep, key, v) \<Rightarrow> 2 * size v + 1
    | Inr (Inl (rep, i, xs)) \<Rightarrow> 2 * size_list size xs
    | Inr (Inr (rep, ps)) \<Rightarrow> 2 * size_list (size_prod (\<lambda>x. 0) size) ps)")
  apply (auto simp: replacer_def split: if_splits jsvalue.splits)
  done

text \<open>\<open>JSON.stringify(value, replacer)\<close>: the value is the property \<open>""\<close> of a wrapper
  object.\<close>

definition JSON_stringify :: "bool \<Rightarrow> jsvalue \<Rightarrow> thrown + string option" where
  "JSON_stringify rep v = SerializeJSONProperty rep [] v"

section \<open>The server: collaborators, state and response envelopes\<close>

text \<open>The handler classes of \<open>./handlers\<close>, one field of \<open>AbapAdtServer\<close> each.\<close>

datatype provider =
    AuthHandlers
  | TransportHandlers
  | ObjectHandlers
  | ClassHandlers
  | CodeAnalysisHandlers
  | ObjectLockHandlers
  | ObjectSourceHandlers
  | ObjectDeletionHandlers
  | ObjectManagementHandlers
  | ObjectRegistrationHandlers
  | NodeHandlers
  | DiscoveryHandlers
  | UnitTestHandlers
  | PrettyPrinterHandlers
  | GitHandlers
  | DdicHandlers
  | ServiceBindingHandlers
  | QueryHandlers
  | FeedHandlers
  | DebugHandlers
  | RenameHandlers
  | AtcHandlers
  | TraceHandlers
  | RefactorHandlers
  | RevisionHandlers

text \<open>\<open>session_types\<close> of the ADT client library.\<close>

datatype session_types = stateful | stateless | keep

text \<open>A tool descriptor, as \<open>getTools()\<close> lists it.\<close>

record descriptor =
  tool_name :: string
  tool_description :: string
  tool_inputSchema :: jsvalue

text \<open>
  What the server calls and does not define: the ADT client, the handler classes and
  the SDK. Each is a function of an outside world \<open>'w\<close> that the server cannot see into;
  an awaited call settles with a value (\<open>Inr\<close>) or a thrown value (\<open>Inl\<close>) and a new
  world.
  \<^item> \<open>isCsrfError\<close>: the classifier of the ADT client library;
  \<^item> \<open>McpError_message\<close>: the \<open>message\<close> that the SDK's constructor
    \<open>new McpError(code, message)\<close> gives the error;
  \<^item> \<open>getTools\<close>, \<open>handle\<close>: the two entry points of a handler class;
  \<^item> \<open>dropSession\<close>, \<open>set_stateful\<close>, \<open>login\<close>: the ADT client;
  \<^item> \<open>toISOString_now\<close>: \<open>new Date().toISOString()\<close>.
\<close>

record 'w externals =
  isCsrfError :: "thrown \<Rightarrow> bool"
  McpError_message :: "int \<Rightarrow> string \<Rightarrow> string"
  getTools :: "provider \<Rightarrow> descriptor list"
  handle :: "provider \<Rightarrow> string \<Rightarrow> jsvalue \<Rightarrow> 'w \<Rightarrow> (thrown + jsvalue) \<times> 'w"
  dropSession :: "'w \<Rightarrow> (thrown + unit) \<times> 'w"
  set_stateful :: "session_types \<Rightarrow> 'w \<Rightarrow> 'w"
  login :: "'w \<Rightarrow> (thrown + unit) \<times> 'w"
  toISOString_now :: "'w \<Rightarrow> string"

text \<open>\<open>new McpError(code, message)\<close>.\<close>

definition new_McpError :: "'w externals \<Rightarrow> int \<Rightarrow> string \<Rightarrow> thrown" where
  "new_McpError ext code message = McpError code (JString (McpError_message ext code message))"

text \<open>
  The calls a request makes, in order: the entry into a method of the server, a call of
  a collaborator, an assignment to the client's \<open>stateful\<close> property, a line written by
  \<open>console.error\<close> (with the value printed after it, if any).
\<close>

datatype event =
    Call_dispatchTool string jsvalue
  | Call_handle provider string jsvalue
  | Call_isSessionExpired thrown
  | Call_reconnect
  | Call_dropSession
  | Set_stateful session_types
  | Call_login
  | Console_error string "thrown option"

record 'w state =
  world :: 'w
  trace :: "event list"

definition log :: "event \<Rightarrow> 'w state \<Rightarrow> 'w state" where
  "log ev st = st\<lparr>trace := trace st @ [ev]\<rparr>"

text \<open>The response of a tool call: \<open>{content: [{type, text}]}\<close>, with \<open>isError: true\<close> on
  the failure paths only. \<open>text\<close> is \<open>None\<close> where \<open>JSON.stringify\<close> returned
  \<open>undefined\<close>.\<close>

record content_item =
  item_type :: string
  item_text :: "string option"

record envelope =
  content :: "content_item list"
  isError :: "bool option"

section \<open>The methods of \<open>AbapAdtServer\<close>\<close>

text \<open>The object literal that \<open>handleError\<close> encodes, and the response built from
  its encoding. \<open>JSON.stringify\<close> is called with no replacer here and is not guarded:
  what it throws, \<open>handleError\<close> throws.\<close>

definition error_payload :: "jsvalue \<Rightarrow> int \<Rightarrow> jsvalue" where
  "error_payload message code =
     JObject [(''error'', message), (''code'', JNumber (int_toString code))]"

definition error_envelope :: "jsvalue \<Rightarrow> int \<Rightarrow> thrown + envelope" where
  "error_envelope message code =
     (case JSON_stringify False (error_payload message code) of
        Inl e \<Rightarrow> Inl e
      | Inr t \<Rightarrow>
          Inr \<lparr>content = [\<lparr>item_type = ''text'', item_text = t\<rparr>], isError = Some True\<rparr>)"

text \<open>The first statement of \<open>handleError\<close>:
  \<^verbatim>\<open>if (!(error instanceof Error)) error = new Error(String(error))\<close>.
  \<open>String(error)\<close> is not guarded: what it throws, \<open>handleError\<close> throws (\<open>Inl\<close>).\<close>

definition coerce_error :: "thrown \<Rightarrow> thrown + thrown" where
  "coerce_error error =
     (if \<not> instanceof_Error error
      then (case error of
              NonError v \<Rightarrow> Inr (ErrorObj (JString (ToString v)))
            | NoStringForm e \<Rightarrow> Inl e
            | _ \<Rightarrow> Inr error)
      else Inr error)"

text \<open>\<open>handleError\<close> returns a response (\<open>Inr\<close>) or throws (\<open>Inl\<close>).\<close>

definition handleError :: "thrown \<Rightarrow> thrown + envelope" where
  "handleError error =
     (case coerce_error error of
        Inl e \<Rightarrow> Inl e
      | Inr error \<Rightarrow>
          (case error of
             McpError code message \<Rightarrow> error_envelope message code
           | _ \<Rightarrow> error_envelope (JString ''Internal server error'') ErrorCode_InternalError))"

definition serializeResult :: "'w externals \<Rightarrow> jsvalue \<Rightarrow> thrown + envelope" where
  "serializeResult ext result =
     (case JSON_stringify True result of
        Inr t \<Rightarrow> Inr \<lparr>content = [\<lparr>item_type = ''text'', item_text = t\<rparr>], isError = None\<rparr>
      | Inl error \<Rightarrow>
          handleError (new_McpError ext ErrorCode_InternalError ''Failed to serialize result''))"

text \<open>\<open>error.message.toLowerCase()\<close>: the lower-case string when the message is a
  string; a \<open>TypeError\<close> otherwise (plain data other than a string has no callable
  \<open>toLowerCase\<close>; the texts are those of the V8 engine).\<close>

definition message_toLowerCase :: "jsvalue \<Rightarrow> thrown + string" where
  "message_toLowerCase message =
     (case message of
        JString s \<Rightarrow> Inr (toLowerCase s)
      | JUndefined \<Rightarrow>
          Inl (ErrorObj (JString
                 ''Cannot read properties of undefined (reading 'toLowerCase')''))
      | JNull \<Rightarrow>
          Inl (ErrorObj (JString ''Cannot read properties of null (reading 'toLowerCase')''))
      | _ \<Rightarrow> Inl (ErrorObj (JString ''error.message.toLowerCase is not a function'')))"

text \<open>The body of \<open>if (error instanceof Error) { ... }\<close> in \<open>isSessionExpired\<close>, followed by
  the final \<open>return false\<close>.\<close>

definition message_matches :: "jsvalue \<Rightarrow> thrown + bool" where
  "message_matches message =
     (case message_toLowerCase message of
        Inl e \<Rightarrow> Inl e
      | Inr msg \<Rightarrow>
          Inr (String_includes msg ''session timed out'' \<or> String_includes msg ''csrf token''))"

text \<open>\<open>isSessionExpired\<close> returns \<open>true\<close> or \<open>false\<close> (\<open>Inr\<close>) or throws (\<open>Inl\<close>). The
  classifier \<open>isCsrfError\<close> is taken to return on every value.\<close>

definition isSessionExpired :: "'w externals \<Rightarrow> thrown \<Rightarrow> thrown + bool" where
  "isSessionExpired ext error =
     (if isCsrfError ext error then Inr True
      else (case error of
              NonError v \<Rightarrow> Inr False
            | NoStringForm e \<Rightarrow> Inr False
            | ErrorObj message \<Rightarrow> message_matches message
            | McpError code message \<Rightarrow> message_matches message))"

definition reconnect :: "'w externals \<Rightarrow> 'w state \<Rightarrow> (thrown + unit) \<times> 'w state" where
  "reconnect ext st =
     (let st = log Call_reconnect st;
          st = log (Console_error ''[MCP] Session expired, reconnecting...'' None) st;
          st = log Call_dropSession st;
          (dropped, w) = dropSession ext (world st);
          st = st\<lparr>world := w\<rparr>;
          st = log (Set_stateful stateful) st;
          st = st\<lparr>world := set_stateful ext stateful (world st)\<rparr>;
          st = log Call_login st;
          (logged_in, w) = login ext (world st);
          st = st\<lparr>world := w\<rparr>
      in case logged_in of
           Inl error \<Rightarrow> (Inl error, st)
         | Inr u \<Rightarrow> (Inr (), log (Console_error ''[MCP] Reconnected successfully'' None) st))"

text \<open>A call of \<open>handle(name, args)\<close> on one of the handler objects.\<close>

definition call_handle ::
  "'w externals \<Rightarrow> provider \<Rightarrow> string \<Rightarrow> jsvalue \<Rightarrow> 'w state \<Rightarrow> (thrown + jsvalue) \<times> 'w state" where
  "call_handle ext p name args st =
     (let st = log (Call_handle p name args) st;
          (outcome, w) = handle ext p name args (world st)
      in (outcome, st\<lparr>world := w\<rparr>))"

text \<open>
  The \<open>switch\<close> of \<open>dispatchTool\<close>: the case labels of each group, in source order,
  and what the group's body evaluates: a call of \<open>handle\<close> on a handler object, or the
  health record.
\<close>

datatype route = Handler provider | Healthcheck

definition switch_cases :: "(string list \<times> route) list" where
  "switch_cases =
   [
    ([''transportInfo'', ''createTransport'', ''hasTransportConfig'',
       ''transportConfigurations'', ''getTransportConfiguration'',
       ''setTransportsConfig'', ''createTransportsConfig'', ''userTransports'',
       ''transportsByConfig'', ''transportDelete'', ''transportRelease'',
       ''transportSetOwner'', ''transportAddUser'', ''systemUsers'',
       ''transportReference''],
      Handler TransportHandlers),
    ([''lock'', ''unLock''],
      Handler ObjectLockHandlers),
    ([''objectStructure'', ''searchObject'', ''findObjectPath'', ''objectTypes'',
       ''reentranceTicket''],
      Handler ObjectHandlers),
    ([''classIncludes'', ''classComponents''],
      Handler ClassHandlers),
    ([''syntaxCheckCode'', ''syntaxCheckCdsUrl'', ''codeCompletion'',
       ''findDefinition'', ''usageReferences'', ''syntaxCheckTypes'',
       ''codeCompletionFull'', ''runClass'', ''codeCompletionElement'',
       ''usageReferenceSnippets'', ''fixProposals'', ''fixEdits'',
       ''fragmentMappings'', ''abapDocumentation''],
      Handler CodeAnalysisHandlers),
    ([''getObjectSource'', ''setObjectSource''],
      Handler ObjectSourceHandlers),
    ([''deleteObject''],
      Handler ObjectDeletionHandlers),
    ([''activateObjects'', ''activateByName'', ''inactiveObjects''],
      Handler ObjectManagementHandlers),
    ([''objectRegistrationInfo'', ''validateNewObject'', ''createObject''],
      Handler ObjectRegistrationHandlers),
    ([''nodeContents'', ''mainPrograms''],
      Handler NodeHandlers),
    ([''featureDetails'', ''collectionFeatureDetails'', ''findCollectionByUrl'',
       ''loadTypes'', ''adtDiscovery'', ''adtCoreDiscovery'',
       ''adtCompatibiliyGraph''],
      Handler DiscoveryHandlers),
    ([''unitTestRun'', ''unitTestEvaluation'', ''unitTestOccurrenceMarkers'',
       ''createTestInclude''],
      Handler UnitTestHandlers),
    ([''prettyPrinterSetting'', ''setPrettyPrinterSetting'', ''prettyPrinter''],
      Handler PrettyPrinterHandlers),
    ([''gitRepos'', ''gitExternalRepoInfo'', ''gitCreateRepo'', ''gitPullRepo'',
       ''gitUnlinkRepo'', ''stageRepo'', ''pushRepo'', ''checkRepo'',
       ''remoteRepoInfo'', ''switchRepoBranch''],
      Handler GitHandlers),
    ([''annotationDefinitions'', ''ddicElement'', ''ddicRepositoryAccess'',
       ''packageSearchHelp''],
      Handler DdicHandlers),
    ([''publishServiceBinding'', ''unPublishServiceBinding'', ''bindingDetails''],
      Handler ServiceBindingHandlers),
    ([''tableContents'', ''runQuery''],
      Handler QueryHandlers),
    ([''feeds'', ''dumps''],
      Handler FeedHandlers),
    ([''debuggerListeners'', ''debuggerListen'', ''debuggerDeleteListener'',
       ''debuggerSetBreakpoints'', ''debuggerDeleteBreakpoints'', ''debuggerAttach'',
       ''debuggerSaveSettings'', ''debuggerStackTrace'', ''debuggerVariables'',
       ''debuggerChildVariables'', ''debuggerStep'', ''debuggerGoToStack'',
       ''debuggerSetVariableValue''],
      Handler DebugHandlers),
    ([''renameEvaluate'', ''renamePreview'', ''renameExecute''],
      Handler RenameHandlers),
    ([''atcCustomizing'', ''atcCheckVariant'', ''createAtcRun'', ''atcWorklists'',
       ''atcUsers'', ''atcExemptProposal'', ''atcRequestExemption'',
       ''isProposalMessage'', ''atcContactUri'', ''atcChangeContact''],
      Handler AtcHandlers),
    ([''tracesList'', ''tracesListRequests'', ''tracesHitList'', ''tracesDbAccess'',
       ''tracesStatements'', ''tracesSetParameters'', ''tracesCreateConfiguration'',
       ''tracesDeleteConfiguration'', ''tracesDelete''],
      Handler TraceHandlers),
    ([''extractMethodEvaluate'', ''extractMethodPreview'', ''extractMethodExecute''],
      Handler RefactorHandlers),
    ([''revisions''],
      Handler RevisionHandlers),
    ([''healthcheck''],
      Healthcheck)
   ]"

fun find_case :: "string \<Rightarrow> (string list \<times> route) list \<Rightarrow> route option" where
  "find_case name [] = None"
| "find_case name ((labels, r) # cases) =
     (if name \<in> set labels then Some r else find_case name cases)"

definition dispatchTool ::
  "'w externals \<Rightarrow> string \<Rightarrow> jsvalue \<Rightarrow> 'w state \<Rightarrow> (thrown + jsvalue) \<times> 'w state" where
  "dispatchTool ext name args st =
     (let st = log (Call_dispatchTool name args) st
      in case find_case name switch_cases of
           Some (Handler p) \<Rightarrow> call_handle ext p name args st
         | Some Healthcheck \<Rightarrow>
             (Inr (JObject [(''status'', JString ''healthy''),
                            (''timestamp'', JString (toISOString_now ext (world st)))]), st)
         | None \<Rightarrow>
             (Inl (new_McpError ext ErrorCode_MethodNotFound (''Unknown tool: '' @ name)), st))"

section \<open>The request handlers of \<open>setupToolHandlers\<close>\<close>

text \<open>The handler of \<open>ListToolsRequestSchema\<close>: the spread of every handler's
  \<open>getTools()\<close>, in this order, and the health check's descriptor last.\<close>

definition provider_order :: "provider list" where
  "provider_order =
     [AuthHandlers, TransportHandlers, ObjectHandlers, ClassHandlers, CodeAnalysisHandlers,
      ObjectLockHandlers, ObjectSourceHandlers, ObjectDeletionHandlers,
      ObjectManagementHandlers, ObjectRegistrationHandlers, NodeHandlers, DiscoveryHandlers,
      UnitTestHandlers, PrettyPrinterHandlers, GitHandlers, DdicHandlers,
      ServiceBindingHandlers, QueryHandlers, FeedHandlers, DebugHandlers, RenameHandlers,
      AtcHandlers, TraceHandlers, RefactorHandlers, RevisionHandlers]"

definition healthcheck_descriptor :: descriptor where
  "healthcheck_descriptor =
     \<lparr>tool_name = ''healthcheck'',
      tool_description = ''Check server health and connectivity'',
      tool_inputSchema = JObject [(''type'', JString ''object''), (''properties'', JObject [])]\<rparr>"

definition ListTools :: "(provider \<Rightarrow> descriptor list) \<Rightarrow> descriptor list" where
  "ListTools tools_of = concat (map tools_of provider_order) @ [healthcheck_descriptor]"

text \<open>
  The handler of \<open>CallToolRequestSchema\<close>. Its outcome is a response (\<open>Inr\<close>) or a
  thrown value that leaves the handler (\<open>Inl\<close>): the calls of \<open>isSessionExpired\<close> and
  \<open>handleError\<close> in a \<open>catch\<close> clause are not guarded.

  \<open>try_block\<close> is the \<open>try\<close> block of the loop,
  \<^verbatim>\<open>const result = await this.dispatchTool(name, args); return this.serializeResult(result)\<close>:
  \<open>Inr\<close> is the response it returns, \<open>Inl\<close> the value its \<open>catch\<close> clause receives.
  \<open>retry_loop\<close> is the \<open>for\<close> loop over \<open>attempt\<close>: \<open>Some\<close> is an outcome from inside
  the loop (a \<open>return\<close> or a throw), \<open>None\<close> is the loop running out, after which the
  handler returns the error of the last line.
\<close>

definition AUTH_TOOLS :: "string list" where
  "AUTH_TOOLS = [''login'', ''logout'', ''dropSession'']"

definition try_block ::
  "'w externals \<Rightarrow> string \<Rightarrow> jsvalue \<Rightarrow> 'w state \<Rightarrow> (thrown + envelope) \<times> 'w state" where
  "try_block ext name args st =
     (case dispatchTool ext name args st of
        (Inr result, st1) \<Rightarrow> (serializeResult ext result, st1)
      | (Inl error, st1) \<Rightarrow> (Inl error, st1))"

function retry_loop ::
  "'w externals \<Rightarrow> string \<Rightarrow> jsvalue \<Rightarrow> nat \<Rightarrow> 'w state \<Rightarrow>
   (thrown + envelope) option \<times> 'w state" where
  "retry_loop ext name args attempt st =
     (if attempt < 2 then
        (case try_block ext name args st of
           (Inr response, st1) \<Rightarrow> (Some (Inr response), st1)
         | (Inl error, st1) \<Rightarrow>
             (let st1 = (if attempt = 0 then log (Call_isSessionExpired error) st1 else st1)
              in case (if attempt = 0 then isSessionExpired ext error else Inr False) of
                   Inl e \<Rightarrow> (Some (Inl e), st1)
                 | Inr True \<Rightarrow>
                     (case reconnect ext st1 of
                        (Inr u, st2) \<Rightarrow> retry_loop ext name args (attempt + 1) st2
                      | (Inl reconnectError, st2) \<Rightarrow>
                          (Some (handleError error),
                           log (Console_error ''[MCP] Reconnect failed:'' (Some reconnectError))
                             st2))
                 | Inr False \<Rightarrow> (Some (handleError error), st1)))
      else (None, st))"
  by pat_completeness auto
termination
  by (relation "measure (\<lambda>(ext, name, args, attempt, st). 2 - attempt)") auto

declare retry_loop.simps [simp del]

definition CallTool ::
  "'w externals \<Rightarrow> string \<Rightarrow> jsvalue \<Rightarrow> 'w state \<Rightarrow> (thrown + envelope) \<times> 'w state" where
  "CallTool ext name args st =
     (if name \<in> set AUTH_TOOLS then
        (case call_handle ext AuthHandlers name args st of
           (Inr result, st1) \<Rightarrow>
             (case serializeResult ext result of
                Inr response \<Rightarrow> (Inr response, st1)
              | Inl error \<Rightarrow> (handleError error, st1))
         | (Inl error, st1) \<Rightarrow> (handleError error, st1))
      else
        (case retry_loop ext name args 0 st of
           (Some outcome, st1) \<Rightarrow> (outcome, st1)
         | (None, st1) \<Rightarrow>
             (handleError (ErrorObj (JString ''Unexpected retry exhaustion'')), st1)))"

section \<open>Observations on a run\<close>

text \<open>The entries into \<open>dispatchTool\<close> that a trace holds (name and arguments), the
  number of entries into \<open>reconnect\<close>, and the calls of a handler's \<open>handle\<close>.\<close>

fun dispatches :: "event list \<Rightarrow> (string \<times> jsvalue) list" where
  "dispatches [] = []"
| "dispatches (Call_dispatchTool n a # tr) = (n, a) # dispatches tr"
| "dispatches (ev # tr) = dispatches tr"

definition reconnects :: "event list \<Rightarrow> nat" where
  "reconnects tr = count_list tr Call_reconnect"

fun handle_calls :: "event list \<Rightarrow> (provider \<times> string \<times> jsvalue) list" where
  "handle_calls [] = []"
| "handle_calls (Call_handle p n a # tr) = (p, n, a) # handle_calls tr"
| "handle_calls (ev # tr) = handle_calls tr"

text \<open>The \<open>message\<close> property that \<open>isSessionExpired\<close> reads: only an \<open>Error\<close>
  instance is asked for it.\<close>

definition message_of :: "thrown \<Rightarrow> jsvalue option" where
  "message_of error =
     (case error of
        NonError v \<Rightarrow> None | NoStringForm e \<Rightarrow> None
      | ErrorObj message \<Rightarrow> Some message | McpError code message \<Rightarrow> Some message)"

text \<open>The \<open>error\<close> member of the JSON text of a response is the given message: the text
  starts with the member \<open>"error"\<close>, the quoted message and the separator of the next
  member.\<close>

definition envelope_error_is :: "envelope \<Rightarrow> string \<Rightarrow> bool" where
  \<open>envelope_error_is response message =
     (case content response of
        [item] \<Rightarrow>
          (case item_text item of
             Some t \<Rightarrow> prefix (''{"error":'' @ QuoteJSONString message @ '',"code":'') t
           | None \<Rightarrow> False)
      | _ \<Rightarrow> False)\<close>

text \<open>The outcome of the handler is a response whose \<open>error\<close> member is the given
  message.\<close>

definition response_error_is :: "thrown + envelope \<Rightarrow> string \<Rightarrow> bool" where
  "response_error_is outcome message =
     (case outcome of Inr response \<Rightarrow> envelope_error_is response message | Inl e \<Rightarrow> False)"

text \<open>A value holds the BigInt \<open>n\<close>: it is that BigInt, or an element of the array or
  the value of a property of the object holds it, at any depth.\<close>

fun holds_bigint :: "int \<Rightarrow> jsvalue \<Rightarrow> bool"
  and holds_bigint_elements :: "int \<Rightarrow> jsvalue list \<Rightarrow> bool"
  and holds_bigint_properties :: "int \<Rightarrow> (string \<times> jsvalue) list \<Rightarrow> bool"
where
  "holds_bigint n (JBigInt m) = (m = n)"
| "holds_bigint n (JArray xs) = holds_bigint_elements n xs"
| "holds_bigint n (JObject ps) = holds_bigint_properties n ps"
| "holds_bigint n JUndefined = False"
| "holds_bigint n JNull = False"
| "holds_bigint n (JBoolean b) = False"
| "holds_bigint n (JNumber t) = False"
| "holds_bigint n (JString s) = False"
| "holds_bigint_elements n [] = False"
| "holds_bigint_elements n (x # xs) = (holds_bigint n x \<or> holds_bigint_elements n xs)"
| "holds_bigint_properties n [] = False"
| "holds_bigint_properties n ((P, x) # ps) = (holds_bigint n x \<or> holds_bigint_properties n ps)"

section \<open>Collaborators for concrete runs\<close>

text \<open>
  A world that plays a script: the outcomes of the successive calls of \<open>handle\<close> (a call
  after the last one returns \<open>undefined\<close>), the outcome of every \<open>login\<close>, and the
  client's \<open>stateful\<close> property. \<open>dropSession\<close> succeeds, the classifier recognises one
  error, and \<open>McpError\<close> builds its message as the SDK does:
  \<^verbatim>\<open>MCP error ${code}: ${message}\<close>.
\<close>

record script =
  handle_outcomes :: "(thrown + jsvalue) list"
  login_outcome :: "thrown + unit"
  client_mode :: session_types

definition sdk_message :: "int \<Rightarrow> string \<Rightarrow> string" where
  "sdk_message code message = ''MCP error '' @ int_toString code @ '': '' @ message"

definition scripted :: "script externals" where
  "scripted =
     \<lparr>isCsrfError = (\<lambda>error. error = ErrorObj (JString ''Request failed with status code 403'')),
      McpError_message = sdk_message,
      getTools = (\<lambda>p. []),
      handle = (\<lambda>p name args w.
         case handle_outcomes w of
           [] \<Rightarrow> (Inr JUndefined, w)
         | outcome # rest \<Rightarrow> (outcome, w\<lparr>handle_outcomes := rest\<rparr>)),
      dropSession = (\<lambda>w. (Inr (), w)),
      set_stateful = (\<lambda>m w. w\<lparr>client_mode := m\<rparr>),
      login = (\<lambda>w. (login_outcome w, w)),
      toISOString_now = (\<lambda>w. ''2026-01-01T00:00:00.000Z'')\<rparr>"

definition start :: "(thrown + jsvalue) list \<Rightarrow> thrown + unit \<Rightarrow> script state" where
  "start outcomes login_result =
     \<lparr>world = \<lparr>handle_outcomes = outcomes, login_outcome = login_result, client_mode = stateful\<rparr>,
      trace = []\<rparr>"

text \<open>Two handler classes that list a tool of the same name.\<close>

definition duplicate_tools :: "provider \<Rightarrow> descriptor list" where
  "duplicate_tools p =
     (if p = ObjectHandlers \<or> p = ObjectLockHandlers
      then [\<lparr>tool_name = ''lock'', tool_description = ''Lock an object'',
             tool_inputSchema = JObject [(''type'', JString ''object'')]\<rparr>]
      else [])"

section \<open>Properties\<close>

subsection \<open>Decimal texts\<close>

lemma digit_char_in: "d < 10 \<Longrightarrow> digit_char d \<in> set ''0123456789''"
  unfolding digit_char_def by (rule nth_mem) simp

lemma nat_toString_digits: "set (nat_toString n) \<subseteq> set ''0123456789''"
proof (induction n rule: nat_toString.induct)
  case (1 n)
  show ?case
  proof (cases "n < 10")
    case True
    then show ?thesis using digit_char_in [of n] by (simp add: nat_toString.simps [of n])
  next
    case False
    have "n mod 10 < 10" by simp
    then have "digit_char (n mod 10) \<in> set ''0123456789''" by (rule digit_char_in)
    with False 1 show ?thesis by (simp add: nat_toString.simps [of n])
  qed
qed

lemma int_toString_chars: "set (int_toString i) \<subseteq> set ''-0123456789''"
proof (cases "i < 0")
  case True
  have "set ''0123456789'' \<subseteq> set ''-0123456789''" by (rule set_subset_Cons)
  with nat_toString_digits [of "nat (- i)"]
  have "set (nat_toString (nat (- i))) \<subseteq> set ''-0123456789''" by (rule subset_trans)
  with True show ?thesis by (simp add: int_toString_def)
next
  case False
  have "set ''0123456789'' \<subseteq> set ''-0123456789''" by (rule set_subset_Cons)
  with nat_toString_digits [of "nat i"]
  have "set (nat_toString (nat i)) \<subseteq> set ''-0123456789''" by (rule subset_trans)
  with False show ?thesis by (simp add: int_toString_def)
qed

lemma int_toString_finite:
  "int_toString i \<notin> {''NaN'', ''Infinity'', ''-Infinity''}"
proof
  assume "int_toString i \<in> {''NaN'', ''Infinity'', ''-Infinity''}"
  then have "CHR ''N'' \<in> set (int_toString i) \<or> CHR ''I'' \<in> set (int_toString i)"
    by auto
  then have "CHR ''N'' \<in> set ''-0123456789'' \<or> CHR ''I'' \<in> set ''-0123456789''"
    using int_toString_chars [of i] by blast
  then show False by simp
qed

lemma quote_char_plain: "c \<in> set ''-0123456789'' \<Longrightarrow> quote_char c = [c]"
  by (auto simp: quote_char_def)

subsection \<open>The serializer\<close>

lemma stringify_no_throw:
  "rep \<Longrightarrow> \<exists>r. SerializeJSONProperty rep key v = Inr r"
  "rep \<Longrightarrow> \<exists>partial. SerializeJSONArray rep index xs = Inr partial"
  "rep \<Longrightarrow> \<exists>partial. SerializeJSONObject rep ps = Inr partial"
proof (induction rep key v and rep index xs and rep ps
    rule: SerializeJSONProperty_SerializeJSONArray_SerializeJSONObject.induct)
  case (1 rep key v)
  then show ?case
    by (cases v) (auto simp: replacer_def)
next
  case (2 rep index)
  then show ?case by simp
next
  case (3 rep index x xs)
  then show ?case by (auto split: sum.splits)
next
  case (4 rep)
  then show ?case by simp
next
  case (5 rep P x ps)
  then show ?case by (auto split: sum.splits)
qed

lemma sublist_between: "sublist q t \<Longrightarrow> sublist q (a @ t @ b)"
proof -
  assume "sublist q t"
  then obtain ps ss where "t = ps @ q @ ss" by (auto simp: sublist_def)
  then have "a @ t @ b = (a @ ps) @ q @ (ss @ b)" by simp
  then show ?thesis unfolding sublist_def by blast
qed

lemma sublist_join: "t \<in> set partial \<Longrightarrow> sublist q t \<Longrightarrow> sublist q (join sep partial)"
proof (induction sep partial rule: join.induct)
  case (1 sep)
  then show ?case by simp
next
  case (2 sep x)
  then show ?case by simp
next
  case (3 sep x y ys)
  show ?case
  proof (cases "t = x")
    case True
    with 3 have "sublist q ([] @ x @ (sep @ join sep (y # ys)))" by (intro sublist_between) simp
    then show ?thesis by simp
  next
    case False
    with 3 have "sublist q (join sep (y # ys))" by simp
    then have "sublist q (x @ sep @ join sep (y # ys) @ [])"
      using sublist_between [of q "join sep (y # ys)" "x @ sep" "[]"] by simp
    then show ?thesis by simp
  qed
qed

lemma Quote_decimal: "QuoteJSONString (int_toString n) = [CHR 0x22] @ int_toString n @ [CHR 0x22]"
proof -
  have "\<And>s. set s \<subseteq> set ''-0123456789'' \<Longrightarrow> concat (map quote_char s) = s"
  proof -
    fix s :: string
    show "set s \<subseteq> set ''-0123456789'' \<Longrightarrow> concat (map quote_char s) = s"
    proof (induction s)
      case Nil
      then show ?case by simp
    next
      case (Cons c s)
      then have "c \<in> set ''-0123456789''" and "set s \<subseteq> set ''-0123456789''" by simp_all
      with Cons.IH quote_char_plain [of c] show ?case by simp
    qed
  qed
  with int_toString_chars [of n] show ?thesis by (simp add: QuoteJSONString_def)
qed

lemma stringify_holds_bigint:
  "rep \<Longrightarrow> holds_bigint n v \<Longrightarrow> SerializeJSONProperty rep key v = Inr r \<Longrightarrow>
     \<exists>t. r = Some t \<and> sublist (QuoteJSONString (int_toString n)) t"
  "rep \<Longrightarrow> holds_bigint_elements n xs \<Longrightarrow> SerializeJSONArray rep index xs = Inr partial \<Longrightarrow>
     \<exists>t. t \<in> set partial \<and> sublist (QuoteJSONString (int_toString n)) t"
  "rep \<Longrightarrow> holds_bigint_properties n ps \<Longrightarrow> SerializeJSONObject rep ps = Inr partial \<Longrightarrow>
     \<exists>t. t \<in> set partial \<and> sublist (QuoteJSONString (int_toString n)) t"
proof (induction rep key v and rep index xs and rep ps arbitrary: r and partial and partial
    rule: SerializeJSONProperty_SerializeJSONArray_SerializeJSONObject.induct)
  case (1 rep key v)
  show ?case
  proof (cases v)
    case (JBigInt m)
    with 1 show ?thesis by (auto simp: replacer_def)
  next
    case (JArray xs)
    with 1(3,4,5) obtain partial where p: "SerializeJSONArray rep 0 xs = Inr partial"
      and r: "r = Some (''['' @ join '','' partial @ '']'')"
      by (auto simp: replacer_def split: sum.splits)
    from 1(1) [of xs partial] 1(3,4) JArray p
    obtain t where "t \<in> set partial" "sublist (QuoteJSONString (int_toString n)) t"
      by (auto simp: replacer_def)
    then have "sublist (QuoteJSONString (int_toString n)) (join '','' partial)"
      by (rule sublist_join)
    then have "sublist (QuoteJSONString (int_toString n)) (''['' @ join '','' partial @ '']'')"
      by (rule sublist_between)
    with r show ?thesis by simp
  next
    case (JObject ps)
    with 1(3,4,5) obtain partial where p: "SerializeJSONObject rep ps = Inr partial"
      and r: "r = Some (''{'' @ join '','' partial @ ''}'')"
      by (auto simp: replacer_def split: sum.splits)
    from 1(2) [of ps partial] 1(3,4) JObject p
    obtain t where "t \<in> set partial" "sublist (QuoteJSONString (int_toString n)) t"
      by (auto simp: replacer_def)
    then have "sublist (QuoteJSONString (int_toString n)) (join '','' partial)"
      by (rule sublist_join)
    then have "sublist (QuoteJSONString (int_toString n)) (''{'' @ join '','' partial @ ''}'')"
      by (rule sublist_between)
    with r show ?thesis by simp
  qed (use 1(4) in simp_all)
next
  case (2 rep index)
  then show ?case by simp
next
  case (3 rep index x xs)
  from 3(3,5) obtain strP rest where s: "SerializeJSONProperty rep (nat_toString index) x = Inr strP"
    and p: "SerializeJSONArray rep (index + 1) xs = Inr rest"
    and e: "partial = (case strP of None \<Rightarrow> ''null'' | Some t \<Rightarrow> t) # rest"
    by (auto split: sum.splits)
  show ?case
  proof (cases "holds_bigint n x")
    case True
    from 3(1) [OF 3(3) True s] e show ?thesis by auto
  next
    case False
    with 3(4) have "holds_bigint_elements n xs" by simp
    from 3(2) [OF s 3(3) this p] e show ?thesis by auto
  qed
next
  case (4 rep)
  then show ?case by simp
next
  case (5 rep P x ps)
  from 5(3,5) obtain strP rest where s: "SerializeJSONProperty rep P x = Inr strP"
    and p: "SerializeJSONObject rep ps = Inr rest"
    and e: "partial = (case strP of None \<Rightarrow> [] | Some t \<Rightarrow> [QuoteJSONString P @ '':'' @ t]) @ rest"
    by (auto split: sum.splits)
  show ?case
  proof (cases "holds_bigint n x")
    case True
    from 5(1) [OF 5(3) True s] obtain t where t: "strP = Some t"
      "sublist (QuoteJSONString (int_toString n)) t" by auto
    then have "sublist (QuoteJSONString (int_toString n)) ((QuoteJSONString P @ '':'') @ t @ [])"
      by (intro sublist_between)
    with t e show ?thesis by auto
  next
    case False
    with 5(4) have "holds_bigint_properties n ps" by simp
    from 5(2) [OF s 5(3) this p] e show ?thesis by auto
  qed
qed

lemma stringify_bigint_throws:
  "\<not> rep \<Longrightarrow> holds_bigint n v \<Longrightarrow> \<exists>e. SerializeJSONProperty rep key v = Inl e"
  "\<not> rep \<Longrightarrow> holds_bigint_elements n xs \<Longrightarrow> \<exists>e. SerializeJSONArray rep index xs = Inl e"
  "\<not> rep \<Longrightarrow> holds_bigint_properties n ps \<Longrightarrow> \<exists>e. SerializeJSONObject rep ps = Inl e"
proof (induction rep key v and rep index xs and rep ps
    rule: SerializeJSONProperty_SerializeJSONArray_SerializeJSONObject.induct)
  case (1 rep key v)
  then show ?case by (cases v) auto
next
  case (2 rep index)
  then show ?case by simp
next
  case (3 rep index x xs)
  show ?case
  proof (cases "SerializeJSONProperty rep (nat_toString index) x")
    case (Inl e)
    then show ?thesis by simp
  next
    case (Inr strP)
    with 3(1) [OF 3(3)] have "\<not> holds_bigint n x" by auto
    with 3(4) have "holds_bigint_elements n xs" by simp
    from 3(2) [OF Inr 3(3) this] Inr show ?thesis by auto
  qed
next
  case (4 rep)
  then show ?case by simp
next
  case (5 rep P x ps)
  show ?case
  proof (cases "SerializeJSONProperty rep P x")
    case (Inl e)
    then show ?thesis by simp
  next
    case (Inr strP)
    with 5(1) [OF 5(3)] have "\<not> holds_bigint n x" by auto
    with 5(4) have "holds_bigint_properties n ps" by simp
    from 5(2) [OF Inr 5(3) this] Inr show ?thesis by auto
  qed
qed

lemma String_includes_sublist: "String_includes s searchString \<longleftrightarrow> sublist searchString s"
  by (induction s) (simp_all add: sublist_Cons_right)

lemma serializeResult_returns:
  "\<exists>t. JSON_stringify True v = Inr t \<and>
        serializeResult ext v =
          Inr \<lparr>content = [\<lparr>item_type = ''text'', item_text = t\<rparr>], isError = None\<rparr>"
proof -
  obtain r where "JSON_stringify True v = Inr r"
    using stringify_no_throw(1) [of True "[]" v] by (auto simp: JSON_stringify_def)
  then show ?thesis by (simp add: serializeResult_def)
qed

lemma serializeResult_not_thrown: "serializeResult ext v \<noteq> Inl e"
  using serializeResult_returns [of v ext] by auto

subsection \<open>Error envelopes\<close>

lemma Quote_error: \<open>QuoteJSONString ''error'' = ''"error"''\<close>
  by (simp add: QuoteJSONString_def quote_char_def)

lemma Quote_code: \<open>QuoteJSONString ''code'' = ''"code"''\<close>
  by (simp add: QuoteJSONString_def quote_char_def)

lemma error_envelope_text:
  \<open>error_envelope (JString message) code =
     Inr \<lparr>content =
        [\<lparr>item_type = ''text'',
          item_text = Some (''{"error":'' @ QuoteJSONString message @ '',"code":'' @
                            int_toString code @ ''}'')\<rparr>],
      isError = Some True\<rparr>\<close>
  using int_toString_finite [of code]
  by (simp add: error_envelope_def error_payload_def JSON_stringify_def Quote_error Quote_code)

lemma response_error_is_error_envelope:
  "response_error_is (error_envelope (JString message) code) message"
  by (simp add: error_envelope_text response_error_is_def envelope_error_is_def)

lemma handleError_cases:
  "handleError error =
     (case error of
        NonError v \<Rightarrow> error_envelope (JString ''Internal server error'') ErrorCode_InternalError
      | NoStringForm e \<Rightarrow> Inl e
      | ErrorObj message \<Rightarrow>
          error_envelope (JString ''Internal server error'') ErrorCode_InternalError
      | McpError code message \<Rightarrow> error_envelope message code)"
  by (simp add: handleError_def coerce_error_def instanceof_Error_def split: thrown.splits)

subsection \<open>The retry loop, path by path\<close>

lemma try_block_cases:
  "dispatchTool ext name args st = (Inr result, st1) \<Longrightarrow>
   try_block ext name args st = (serializeResult ext result, st1)"
  "dispatchTool ext name args st = (Inl error, st1) \<Longrightarrow>
   try_block ext name args st = (Inl error, st1)"
  by (simp_all add: try_block_def)

lemma retry_loop_second:
  "retry_loop ext name args (Suc 0) st =
     (case dispatchTool ext name args st of
        (Inr result, st1) \<Rightarrow> (Some (serializeResult ext result), st1)
      | (Inl error, st1) \<Rightarrow> (Some (handleError error), st1))"
  using serializeResult_not_thrown [of ext]
  by (auto simp: retry_loop.simps [of ext name args "Suc 0"] try_block_def
      split: prod.splits sum.splits)

lemma retry_loop_first_success:
  "dispatchTool ext name args st = (Inr result, st1) \<Longrightarrow>
   retry_loop ext name args 0 st = (Some (serializeResult ext result), st1)"
  using serializeResult_not_thrown [of ext result]
  by (auto simp: retry_loop.simps [of ext name args 0] try_block_def split: sum.splits)

lemma retry_loop_first_not_expired:
  "dispatchTool ext name args st = (Inl error, st1) \<Longrightarrow> isSessionExpired ext error = Inr False \<Longrightarrow>
   retry_loop ext name args 0 st =
     (Some (handleError error), log (Call_isSessionExpired error) st1)"
  by (simp add: retry_loop.simps [of ext name args 0] try_block_def)

lemma retry_loop_first_predicate_throws:
  "dispatchTool ext name args st = (Inl error, st1) \<Longrightarrow> isSessionExpired ext error = Inl e \<Longrightarrow>
   retry_loop ext name args 0 st = (Some (Inl e), log (Call_isSessionExpired error) st1)"
  by (simp add: retry_loop.simps [of ext name args 0] try_block_def)

lemma retry_loop_first_reconnect_failed:
  "dispatchTool ext name args st = (Inl error, st1) \<Longrightarrow> isSessionExpired ext error = Inr True \<Longrightarrow>
   reconnect ext (log (Call_isSessionExpired error) st1) = (Inl reconnectError, st2) \<Longrightarrow>
   retry_loop ext name args 0 st =
     (Some (handleError error),
      log (Console_error ''[MCP] Reconnect failed:'' (Some reconnectError)) st2)"
  by (simp add: retry_loop.simps [of ext name args 0] try_block_def)

lemma retry_loop_first_continue:
  "dispatchTool ext name args st = (Inl error, st1) \<Longrightarrow> isSessionExpired ext error = Inr True \<Longrightarrow>
   reconnect ext (log (Call_isSessionExpired error) st1) = (Inr u, st2) \<Longrightarrow>
   retry_loop ext name args 0 st = retry_loop ext name args (Suc 0) st2"
  by (simp add: retry_loop.simps [of ext name args 0] try_block_def)

lemma retry_loop_second_not_exhausted:
  "\<exists>outcome st'. retry_loop ext name args (Suc 0) st = (Some outcome, st')"
  by (simp add: retry_loop_second split: prod.splits sum.splits)

text \<open>The loop never runs out: started at \<open>attempt = 0\<close> it ends inside the loop, with a
  \<open>return\<close> or a throw, so the line after the loop is not reached.\<close>

lemma retry_loop_never_exhausted:
  "\<exists>outcome st'. retry_loop ext name args 0 st = (Some outcome, st')"
proof -
  obtain o1 st1 where d: "dispatchTool ext name args st = (o1, st1)"
    by (cases "dispatchTool ext name args st")
  show ?thesis
  proof (cases o1)
    case (Inr result)
    with d show ?thesis by (simp add: retry_loop_first_success)
  next
    case (Inl error)
    show ?thesis
    proof (cases "isSessionExpired ext error")
      case (Inl e)
      with d \<open>o1 = Inl error\<close> show ?thesis by (simp add: retry_loop_first_predicate_throws)
    next
      case (Inr expired)
      show ?thesis
      proof (cases expired)
        case False
        with d \<open>o1 = Inl error\<close> Inr show ?thesis by (simp add: retry_loop_first_not_expired)
      next
        case True
        obtain rc st2 where r: "reconnect ext (log (Call_isSessionExpired error) st1) = (rc, st2)"
          by (cases "reconnect ext (log (Call_isSessionExpired error) st1)")
        show ?thesis
        proof (cases rc)
          case (Inl reconnectError)
          with d \<open>o1 = Inl error\<close> Inr True r show ?thesis
            by (simp add: retry_loop_first_reconnect_failed)
        next
          case (Inr u)
          with d \<open>o1 = Inl error\<close> \<open>isSessionExpired ext error = Inr expired\<close> True r
          have "retry_loop ext name args 0 st = retry_loop ext name args (Suc 0) st2"
            by (simp add: retry_loop_first_continue)
          with retry_loop_second_not_exhausted [of ext name args st2] show ?thesis by simp
        qed
      qed
    qed
  qed
qed

lemma trace_dispatchTool:
  "dispatchTool ext name args st = (outcome, st1) \<Longrightarrow>
   trace st1 = trace st @ Call_dispatchTool name args #
     (case find_case name switch_cases of
        Some (Handler p) \<Rightarrow> [Call_handle p name args] | _ \<Rightarrow> [])"
  by (auto simp: dispatchTool_def call_handle_def log_def Let_def
      split: option.splits route.splits prod.splits)

lemma trace_reconnect:
  "reconnect ext st = (rc, st2) \<Longrightarrow>
   trace st2 = trace st @
     [Call_reconnect, Console_error ''[MCP] Session expired, reconnecting...'' None,
      Call_dropSession, Set_stateful stateful, Call_login] @
     (case rc of Inl e \<Rightarrow> [] | Inr u \<Rightarrow> [Console_error ''[MCP] Reconnected successfully'' None])"
  by (auto simp: reconnect_def log_def Let_def split: prod.splits sum.splits)

subsection \<open>Traces and the paths of a call\<close>

lemma dispatches_append: "dispatches (xs @ ys) = dispatches xs @ dispatches ys"
  by (induction xs rule: dispatches.induct) auto

lemma handle_calls_append: "handle_calls (xs @ ys) = handle_calls xs @ handle_calls ys"
  by (induction xs rule: handle_calls.induct) auto

lemma reconnects_append: "reconnects (xs @ ys) = reconnects xs + reconnects ys"
  by (simp add: reconnects_def)

lemma dispatches_dispatchTool:
  assumes "dispatchTool ext name args st = (outcome, st1)"
  shows "dispatches (trace st1) = dispatches (trace st) @ [(name, args)]"
    and "reconnects (trace st1) = reconnects (trace st)"
  using trace_dispatchTool [OF assms]
  by (auto simp: dispatches_append reconnects_def split: option.splits route.splits)

lemma dispatches_reconnect:
  assumes "reconnect ext st = (rc, st2)"
  shows "dispatches (trace st2) = dispatches (trace st)"
    and "reconnects (trace st2) = reconnects (trace st) + 1"
    and "handle_calls (trace st2) = handle_calls (trace st)"
  using trace_reconnect [OF assms]
  by (auto simp: dispatches_append handle_calls_append reconnects_def split: sum.splits)

lemma dispatches_log [simp]:
  "dispatches (trace (log (Call_isSessionExpired e) st)) = dispatches (trace st)"
  "dispatches (trace (log (Console_error s x) st)) = dispatches (trace st)"
  "reconnects (trace (log (Call_isSessionExpired e) st)) = reconnects (trace st)"
  "reconnects (trace (log (Console_error s x) st)) = reconnects (trace st)"
  by (simp_all add: log_def dispatches_append reconnects_def)

lemma CallTool_auth:
  "name \<in> set AUTH_TOOLS \<Longrightarrow> handle ext AuthHandlers name args (world st) = (outcome, w) \<Longrightarrow>
   CallTool ext name args st =
     ((case outcome of Inr result \<Rightarrow> serializeResult ext result | Inl error \<Rightarrow> handleError error),
      st\<lparr>world := w, trace := trace st @ [Call_handle AuthHandlers name args]\<rparr>)"
  using serializeResult_not_thrown [of ext]
  by (auto simp: CallTool_def call_handle_def log_def Let_def split: sum.splits)

lemma CallTool_general:
  "name \<notin> set AUTH_TOOLS \<Longrightarrow> retry_loop ext name args 0 st = (Some outcome, st') \<Longrightarrow>
   CallTool ext name args st = (outcome, st')"
  by (simp add: CallTool_def)

text \<open>The ways through the general path.\<close>

lemma CallTool_success:
  "name \<notin> set AUTH_TOOLS \<Longrightarrow> dispatchTool ext name args st = (Inr result, st1) \<Longrightarrow>
   CallTool ext name args st = (serializeResult ext result, st1)"
  by (simp add: CallTool_general retry_loop_first_success)

lemma CallTool_not_expired:
  "name \<notin> set AUTH_TOOLS \<Longrightarrow> dispatchTool ext name args st = (Inl error, st1) \<Longrightarrow>
   isSessionExpired ext error = Inr False \<Longrightarrow>
   CallTool ext name args st = (handleError error, log (Call_isSessionExpired error) st1)"
  by (simp add: CallTool_general retry_loop_first_not_expired)

lemma CallTool_predicate_throws:
  "name \<notin> set AUTH_TOOLS \<Longrightarrow> dispatchTool ext name args st = (Inl error, st1) \<Longrightarrow>
   isSessionExpired ext error = Inl e \<Longrightarrow>
   CallTool ext name args st = (Inl e, log (Call_isSessionExpired error) st1)"
  by (simp add: CallTool_general retry_loop_first_predicate_throws)

lemma CallTool_reconnect_failed:
  "name \<notin> set AUTH_TOOLS \<Longrightarrow> dispatchTool ext name args st = (Inl error, st1) \<Longrightarrow>
   isSessionExpired ext error = Inr True \<Longrightarrow>
   reconnect ext (log (Call_isSessionExpired error) st1) = (Inl reconnectError, st2) \<Longrightarrow>
   CallTool ext name args st =
     (handleError error, log (Console_error ''[MCP] Reconnect failed:'' (Some reconnectError)) st2)"
  by (simp add: CallTool_general retry_loop_first_reconnect_failed)

lemma CallTool_retried:
  "name \<notin> set AUTH_TOOLS \<Longrightarrow> dispatchTool ext name args st = (Inl error, st1) \<Longrightarrow>
   isSessionExpired ext error = Inr True \<Longrightarrow>
   reconnect ext (log (Call_isSessionExpired error) st1) = (Inr u, st2) \<Longrightarrow>
   dispatchTool ext name args st2 = (outcome, st3) \<Longrightarrow>
   CallTool ext name args st =
     ((case outcome of Inr result \<Rightarrow> serializeResult ext result | Inl e2 \<Rightarrow> handleError e2), st3)"
  by (simp add: CallTool_def retry_loop_first_continue retry_loop_second split: sum.splits)

lemma CallTool_dispatches:
  "dispatches (trace (snd (CallTool ext name args st))) = dispatches (trace st) \<or>
   dispatches (trace (snd (CallTool ext name args st))) = dispatches (trace st) @ [(name, args)] \<or>
   dispatches (trace (snd (CallTool ext name args st))) =
     dispatches (trace st) @ [(name, args), (name, args)]"
proof (cases "name \<in> set AUTH_TOOLS")
  case True
  obtain outcome w where "handle ext AuthHandlers name args (world st) = (outcome, w)"
    by (cases "handle ext AuthHandlers name args (world st)")
  with True show ?thesis
    by (simp add: CallTool_auth dispatches_append)
next
  case False
  obtain o1 st1 where d: "dispatchTool ext name args st = (o1, st1)"
    by (cases "dispatchTool ext name args st")
  note d1 = dispatches_dispatchTool(1) [OF d]
  show ?thesis
  proof (cases o1)
    case (Inr result)
    with False d d1 show ?thesis by (simp add: CallTool_success)
  next
    case (Inl error)
    show ?thesis
    proof (cases "isSessionExpired ext error")
      case (Inl e)
      with False d d1 \<open>o1 = Inl error\<close> show ?thesis by (simp add: CallTool_predicate_throws)
    next
      case (Inr expired)
      show ?thesis
      proof (cases expired)
        case False
        with \<open>name \<notin> set AUTH_TOOLS\<close> d d1 \<open>o1 = Inl error\<close> Inr show ?thesis
          by (simp add: CallTool_not_expired)
      next
        case True
        obtain rc st2 where r: "reconnect ext (log (Call_isSessionExpired error) st1) = (rc, st2)"
          by (cases "reconnect ext (log (Call_isSessionExpired error) st1)")
        note r1 = dispatches_reconnect(1) [OF r]
        show ?thesis
        proof (cases rc)
          case (Inl reconnectError)
          with \<open>name \<notin> set AUTH_TOOLS\<close> d d1 \<open>o1 = Inl error\<close>
            \<open>isSessionExpired ext error = Inr expired\<close> True r r1 show ?thesis
            by (simp add: CallTool_reconnect_failed)
        next
          case (Inr u)
          obtain o2 st3 where d2: "dispatchTool ext name args st2 = (o2, st3)"
            by (cases "dispatchTool ext name args st2")
          note d3 = dispatches_dispatchTool(1) [OF d2]
          from \<open>name \<notin> set AUTH_TOOLS\<close> d \<open>o1 = Inl error\<close>
            \<open>isSessionExpired ext error = Inr expired\<close> True r Inr d2
          have "CallTool ext name args st =
            ((case o2 of Inr result \<Rightarrow> serializeResult ext result | Inl e2 \<Rightarrow> handleError e2), st3)"
            by (simp add: CallTool_retried)
          with d1 r1 d3 show ?thesis by simp
        qed
      qed
    qed
  qed
qed

lemma isSessionExpired_string_message:
  "\<exists>expired. isSessionExpired ext (McpError code (JString message)) = Inr expired"
  by (auto simp: isSessionExpired_def message_matches_def message_toLowerCase_def)

subsection \<open>Evaluation of concrete runs\<close>

lemma find_case_lock: "find_case ''lock'' switch_cases = Some (Handler ObjectLockHandlers)"
  by (simp add: switch_cases_def)

lemma find_case_csrf: "find_case ''csrf token'' switch_cases = None"
  by (simp add: switch_cases_def)

lemmas run_defs = scripted_def start_def dispatchTool_def call_handle_def log_def reconnect_def
  isSessionExpired_def message_matches_def message_toLowerCase_def toLowerCase_def
  toLowerCase_char_def char_of_def bit_Suc_0_iff AUTH_TOOLS_def find_case_lock find_case_csrf
  serializeResult_def JSON_stringify_def QuoteJSONString_def quote_char_def replacer_def
  handleError_def coerce_error_def error_envelope_def error_payload_def instanceof_Error_def
  new_McpError_def sdk_message_def int_toString_def nat_toString.simps digit_char_def
  ErrorCode_InternalError_def ErrorCode_MethodNotFound_def reconnects_def
  response_error_is_def envelope_error_is_def Let_def

subsection \<open>Reconnect and retry once\<close>

text \<open>
  Claim C1. One call makes at most two dispatch attempts, whatever happens. For an
  operation name outside \<open>AUTH_TOOLS\<close>: if the first dispatch fails with a failure for
  which \<open>isSessionExpired\<close> returns true and the reconnect sequence succeeds, the call
  dispatches exactly once more, with the same name and arguments, after exactly one
  reconnect, and the outcome is that of the second dispatch as it is: the encoded result
  on success, \<open>handleError\<close> of the failure on failure.
\<close>

theorem retry_once_after_reconnect:
  "length (dispatches (trace (snd (CallTool ext name args st)))) \<le> length (dispatches (trace st)) + 2 \<and>
   (name \<notin> set AUTH_TOOLS \<and>
    dispatchTool ext name args st = (Inl e1, st1) \<and>
    isSessionExpired ext e1 = Inr True \<and>
    reconnect ext (log (Call_isSessionExpired e1) st1) = (Inr (), st2) \<and>
    dispatchTool ext name args st2 = (outcome, st3) \<longrightarrow>
      CallTool ext name args st =
        ((case outcome of Inr result \<Rightarrow> serializeResult ext result | Inl e2 \<Rightarrow> handleError e2), st3) \<and>
      dispatches (trace st3) = dispatches (trace st) @ [(name, args), (name, args)] \<and>
      reconnects (trace st3) = reconnects (trace st) + 1)"
proof (intro conjI impI)
  show "length (dispatches (trace (snd (CallTool ext name args st)))) \<le> length (dispatches (trace st)) + 2"
    using CallTool_dispatches [of ext name args st] by auto
next
  assume h: "name \<notin> set AUTH_TOOLS \<and>
    dispatchTool ext name args st = (Inl e1, st1) \<and>
    isSessionExpired ext e1 = Inr True \<and>
    reconnect ext (log (Call_isSessionExpired e1) st1) = (Inr (), st2) \<and>
    dispatchTool ext name args st2 = (outcome, st3)"
  then show "CallTool ext name args st =
        ((case outcome of Inr result \<Rightarrow> serializeResult ext result | Inl e2 \<Rightarrow> handleError e2), st3)"
    by (simp add: CallTool_retried)
  from h have d: "dispatchTool ext name args st = (Inl e1, st1)"
    and r: "reconnect ext (log (Call_isSessionExpired e1) st1) = (Inr (), st2)"
    and d2: "dispatchTool ext name args st2 = (outcome, st3)" by simp_all
  show "dispatches (trace st3) = dispatches (trace st) @ [(name, args), (name, args)]"
    using dispatches_dispatchTool(1) [OF d] dispatches_reconnect(1) [OF r]
      dispatches_dispatchTool(1) [OF d2] by simp
  show "reconnects (trace st3) = reconnects (trace st) + 1"
    using dispatches_dispatchTool(2) [OF d] dispatches_reconnect(2) [OF r]
      dispatches_dispatchTool(2) [OF d2] by simp
qed

theorem retry_once_after_reconnect_witness:
  \<open>''lock'' \<notin> set AUTH_TOOLS \<and>
   fst (dispatchTool scripted ''lock'' (JObject [])
     (start [Inl (ErrorObj (JString ''Request failed with status code 403'')),
             Inr (JObject [(''LOCK_HANDLE'', JString ''abc'')])] (Inr ())))
     = Inl (ErrorObj (JString ''Request failed with status code 403'')) \<and>
   isSessionExpired scripted (ErrorObj (JString ''Request failed with status code 403'')) = Inr True \<and>
   fst (CallTool scripted ''lock'' (JObject [])
     (start [Inl (ErrorObj (JString ''Request failed with status code 403'')),
             Inr (JObject [(''LOCK_HANDLE'', JString ''abc'')])] (Inr ())))
     = Inr \<lparr>content = [\<lparr>item_type = ''text'', item_text = Some ''{"LOCK_HANDLE":"abc"}''\<rparr>],
        isError = None\<rparr> \<and>
   dispatches (trace (snd (CallTool scripted ''lock'' (JObject [])
     (start [Inl (ErrorObj (JString ''Request failed with status code 403'')),
             Inr (JObject [(''LOCK_HANDLE'', JString ''abc'')])] (Inr ())))))
     = [(''lock'', JObject []), (''lock'', JObject [])] \<and>
   reconnects (trace (snd (CallTool scripted ''lock'' (JObject [])
     (start [Inl (ErrorObj (JString ''Request failed with status code 403'')),
             Inr (JObject [(''LOCK_HANDLE'', JString ''abc'')])] (Inr ()))))) = 1\<close>
  using retry_once_after_reconnect [of scripted "''lock''" "JObject []"
      "start [Inl (ErrorObj (JString ''Request failed with status code 403'')),
             Inr (JObject [(''LOCK_HANDLE'', JString ''abc'')])] (Inr ())"
      "ErrorObj (JString ''Request failed with status code 403'')"
      "snd (dispatchTool scripted ''lock'' (JObject [])
        (start [Inl (ErrorObj (JString ''Request failed with status code 403'')),
             Inr (JObject [(''LOCK_HANDLE'', JString ''abc'')])] (Inr ())))"
      "snd (reconnect scripted (log (Call_isSessionExpired (ErrorObj (JString ''Request failed with status code 403'')))
        (snd (dispatchTool scripted ''lock'' (JObject [])
        (start [Inl (ErrorObj (JString ''Request failed with status code 403'')),
             Inr (JObject [(''LOCK_HANDLE'', JString ''abc'')])] (Inr ())))))) "
      "Inr (JObject [(''LOCK_HANDLE'', JString ''abc'')])"
      "\<lparr>world = \<lparr>handle_outcomes = [], login_outcome = Inr (), client_mode = stateful\<rparr>,
        trace = [Call_dispatchTool ''lock'' (JObject []),
                 Call_handle ObjectLockHandlers ''lock'' (JObject []),
                 Call_isSessionExpired (ErrorObj (JString ''Request failed with status code 403'')),
                 Call_reconnect,
                 Console_error ''[MCP] Session expired, reconnecting...'' None,
                 Call_dropSession, Set_stateful stateful, Call_login,
                 Console_error ''[MCP] Reconnected successfully'' None,
                 Call_dispatchTool ''lock'' (JObject []),
                 Call_handle ObjectLockHandlers ''lock'' (JObject [])]\<rparr>"]
  by (simp add: run_defs)

subsection \<open>A failed reconnect returns the original failure\<close>

text \<open>
  Claim C2, as the code has it. When the first dispatch fails with a failure for which
  \<open>isSessionExpired\<close> returns true and the reconnect sequence fails too, the outcome is
  \<open>handleError\<close> of the original failure; the reconnect failure is only written to the
  error stream. The response carries the original failure's message and code when that
  failure is an \<open>McpError\<close>; for any other failure that it normalizes, \<open>handleError\<close>
  gives the generic \<open>Internal server error\<close> with the internal-error code.
\<close>

theorem reconnect_failure_returns_original:
  "name \<notin> set AUTH_TOOLS \<and> dispatchTool ext name args st = (Inl error, st1) \<and>
   isSessionExpired ext error = Inr True \<and>
   reconnect ext (log (Call_isSessionExpired error) st1) = (Inl reconnectError, st2) \<longrightarrow>
     CallTool ext name args st =
       (handleError error,
        log (Console_error ''[MCP] Reconnect failed:'' (Some reconnectError)) st2) \<and>
     handleError error =
       (case error of
          NonError v \<Rightarrow> error_envelope (JString ''Internal server error'') ErrorCode_InternalError
        | NoStringForm e \<Rightarrow> Inl e
        | ErrorObj message \<Rightarrow>
            error_envelope (JString ''Internal server error'') ErrorCode_InternalError
        | McpError code message \<Rightarrow> error_envelope message code) \<and>
     (case error of
        McpError code (JString message) \<Rightarrow>
          response_error_is (fst (CallTool ext name args st)) message
      | McpError code message \<Rightarrow> True
      | NoStringForm e \<Rightarrow> True
      | _ \<Rightarrow> response_error_is (fst (CallTool ext name args st)) ''Internal server error'') \<and>
     dispatches (trace (snd (CallTool ext name args st))) = dispatches (trace st) @ [(name, args)] \<and>
     reconnects (trace (snd (CallTool ext name args st))) = reconnects (trace st) + 1"
proof (intro impI)
  assume h: "name \<notin> set AUTH_TOOLS \<and> dispatchTool ext name args st = (Inl error, st1) \<and>
   isSessionExpired ext error = Inr True \<and>
   reconnect ext (log (Call_isSessionExpired error) st1) = (Inl reconnectError, st2)"
  then have c: "CallTool ext name args st =
       (handleError error,
        log (Console_error ''[MCP] Reconnect failed:'' (Some reconnectError)) st2)"
    by (simp add: CallTool_reconnect_failed)
  from h have d: "dispatchTool ext name args st = (Inl error, st1)"
    and r: "reconnect ext (log (Call_isSessionExpired error) st1) = (Inl reconnectError, st2)"
    by simp_all
  from c have f: "fst (CallTool ext name args st) = handleError error" by simp
  have e: "(case error of
        McpError code (JString message) \<Rightarrow> response_error_is (handleError error) message
      | McpError code message \<Rightarrow> True
      | NoStringForm e \<Rightarrow> True
      | _ \<Rightarrow> response_error_is (handleError error) ''Internal server error'')"
    by (simp add: handleError_cases response_error_is_error_envelope
        split: thrown.splits jsvalue.splits)
  have t: "dispatches (trace (snd (CallTool ext name args st))) = dispatches (trace st) @ [(name, args)]"
    "reconnects (trace (snd (CallTool ext name args st))) = reconnects (trace st) + 1"
    using c dispatches_dispatchTool [OF d] dispatches_reconnect(1,2) [OF r] by simp_all
  show "CallTool ext name args st =
       (handleError error,
        log (Console_error ''[MCP] Reconnect failed:'' (Some reconnectError)) st2) \<and>
     handleError error =
       (case error of
          NonError v \<Rightarrow> error_envelope (JString ''Internal server error'') ErrorCode_InternalError
        | NoStringForm e \<Rightarrow> Inl e
        | ErrorObj message \<Rightarrow>
            error_envelope (JString ''Internal server error'') ErrorCode_InternalError
        | McpError code message \<Rightarrow> error_envelope message code) \<and>
     (case error of
        McpError code (JString message) \<Rightarrow>
          response_error_is (fst (CallTool ext name args st)) message
      | McpError code message \<Rightarrow> True
      | NoStringForm e \<Rightarrow> True
      | _ \<Rightarrow> response_error_is (fst (CallTool ext name args st)) ''Internal server error'') \<and>
     dispatches (trace (snd (CallTool ext name args st))) = dispatches (trace st) @ [(name, args)] \<and>
     reconnects (trace (snd (CallTool ext name args st))) = reconnects (trace st) + 1"
    unfolding f using c e t handleError_cases [of error] by blast
qed

theorem reconnect_failure_returns_original_witness:
  \<open>''lock'' \<notin> set AUTH_TOOLS \<and>
   dispatchTool scripted ''lock'' (JObject [])
     (start [Inl (McpError ErrorCode_InternalError (JString ''Session timed out''))]
        (Inl (ErrorObj (JString ''connect ECONNREFUSED''))))
     = (Inl (McpError ErrorCode_InternalError (JString ''Session timed out'')),
        \<lparr>world = \<lparr>handle_outcomes = [],
                   login_outcome = Inl (ErrorObj (JString ''connect ECONNREFUSED'')),
                   client_mode = stateful\<rparr>,
         trace = [Call_dispatchTool ''lock'' (JObject []),
                  Call_handle ObjectLockHandlers ''lock'' (JObject [])]\<rparr>) \<and>
   isSessionExpired scripted (McpError ErrorCode_InternalError (JString ''Session timed out''))
     = Inr True \<and>
   fst (reconnect scripted
     (log (Call_isSessionExpired (McpError ErrorCode_InternalError (JString ''Session timed out'')))
        \<lparr>world = \<lparr>handle_outcomes = [],
                   login_outcome = Inl (ErrorObj (JString ''connect ECONNREFUSED'')),
                   client_mode = stateful\<rparr>,
         trace = [Call_dispatchTool ''lock'' (JObject []),
                  Call_handle ObjectLockHandlers ''lock'' (JObject [])]\<rparr>))
     = Inl (ErrorObj (JString ''connect ECONNREFUSED'')) \<and>
   fst (CallTool scripted ''lock'' (JObject [])
     (start [Inl (McpError ErrorCode_InternalError (JString ''Session timed out''))]
        (Inl (ErrorObj (JString ''connect ECONNREFUSED'')))))
     = Inr \<lparr>content = [\<lparr>item_type = ''text'',
           item_text = Some ''{"error":"Session timed out","code":-32603}''\<rparr>],
         isError = Some True\<rparr> \<and>
   response_error_is (fst (CallTool scripted ''lock'' (JObject [])
     (start [Inl (McpError ErrorCode_InternalError (JString ''Session timed out''))]
        (Inl (ErrorObj (JString ''connect ECONNREFUSED'')))))) ''Session timed out'' \<and>
   dispatches (trace (snd (CallTool scripted ''lock'' (JObject [])
     (start [Inl (McpError ErrorCode_InternalError (JString ''Session timed out''))]
        (Inl (ErrorObj (JString ''connect ECONNREFUSED'')))))))
     = [(''lock'', JObject [])]\<close>
  using reconnect_failure_returns_original [of "''lock''" scripted "JObject []"
      "start [Inl (McpError ErrorCode_InternalError (JString ''Session timed out''))]
        (Inl (ErrorObj (JString ''connect ECONNREFUSED'')))"
      "McpError ErrorCode_InternalError (JString ''Session timed out'')"
      "\<lparr>world = \<lparr>handle_outcomes = [],
                   login_outcome = Inl (ErrorObj (JString ''connect ECONNREFUSED'')),
                   client_mode = stateful\<rparr>,
         trace = [Call_dispatchTool ''lock'' (JObject []),
                  Call_handle ObjectLockHandlers ''lock'' (JObject [])]\<rparr>"
      "ErrorObj (JString ''connect ECONNREFUSED'')"
      "snd (reconnect scripted
     (log (Call_isSessionExpired (McpError ErrorCode_InternalError (JString ''Session timed out'')))
        \<lparr>world = \<lparr>handle_outcomes = [],
                   login_outcome = Inl (ErrorObj (JString ''connect ECONNREFUSED'')),
                   client_mode = stateful\<rparr>,
         trace = [Call_dispatchTool ''lock'' (JObject []),
                  Call_handle ObjectLockHandlers ''lock'' (JObject [])]\<rparr>))"]
  by (simp add: run_defs)

text \<open>The claim as stated (the response's error message equals the original failure's
  message) fails when the original failure is a plain \<open>Error\<close>: the response says
  \<open>Internal server error\<close>.\<close>

theorem reconnect_failure_counterexample:
  \<open>''lock'' \<notin> set AUTH_TOOLS \<and>
   fst (dispatchTool scripted ''lock'' (JObject [])
     (start [Inl (ErrorObj (JString ''Session timed out''))]
        (Inl (ErrorObj (JString ''connect ECONNREFUSED'')))))
     = Inl (ErrorObj (JString ''Session timed out'')) \<and>
   isSessionExpired scripted (ErrorObj (JString ''Session timed out'')) = Inr True \<and>
   fst (reconnect scripted
     (log (Call_isSessionExpired (ErrorObj (JString ''Session timed out'')))
       (snd (dispatchTool scripted ''lock'' (JObject [])
         (start [Inl (ErrorObj (JString ''Session timed out''))]
            (Inl (ErrorObj (JString ''connect ECONNREFUSED''))))))))
     = Inl (ErrorObj (JString ''connect ECONNREFUSED'')) \<and>
   fst (CallTool scripted ''lock'' (JObject [])
     (start [Inl (ErrorObj (JString ''Session timed out''))]
        (Inl (ErrorObj (JString ''connect ECONNREFUSED'')))))
     = Inr \<lparr>content = [\<lparr>item_type = ''text'',
           item_text = Some ''{"error":"Internal server error","code":-32603}''\<rparr>],
         isError = Some True\<rparr> \<and>
   \<not> response_error_is
     (fst (CallTool scripted ''lock'' (JObject [])
        (start [Inl (ErrorObj (JString ''Session timed out''))]
           (Inl (ErrorObj (JString ''connect ECONNREFUSED''))))))
     ''Session timed out''\<close>
  by (simp add: run_defs CallTool_def retry_loop.simps try_block_def)

subsection \<open>The session-expiry predicate\<close>

text \<open>
  Claim C3. \<open>isSessionExpired\<close> returns true for a failure if and only if the classifier
  \<open>isCsrfError\<close> recognises it, or it is an \<open>Error\<close> instance whose message, in lower
  case, includes \<open>session timed out\<close> or \<open>csrf token\<close> (\<open>String_includes\<close> is
  occurrence as a contiguous part). It throws exactly for an \<open>Error\<close> instance that the
  classifier does not recognise and whose message is not a string, and returns false
  otherwise. A failure of the first dispatch for which the predicate returns false is
  passed to \<open>handleError\<close> at once: one dispatch, no reconnect.
\<close>

theorem isSessionExpired_iff:
  "(isSessionExpired ext error = Inr True \<longleftrightarrow>
      isCsrfError ext error \<or>
      (case message_of error of
         Some (JString message) \<Rightarrow>
           String_includes (toLowerCase message) ''session timed out'' \<or>
           String_includes (toLowerCase message) ''csrf token''
       | _ \<Rightarrow> False)) \<and>
   ((\<exists>e. isSessionExpired ext error = Inl e) \<longleftrightarrow>
      \<not> isCsrfError ext error \<and>
      (case message_of error of Some (JString message) \<Rightarrow> False | Some m \<Rightarrow> True | None \<Rightarrow> False)) \<and>
   (String_includes s searchString \<longleftrightarrow> sublist searchString s) \<and>
   (name \<notin> set AUTH_TOOLS \<and> dispatchTool ext name args st = (Inl error, st1) \<and>
    isSessionExpired ext error = Inr False \<longrightarrow>
      CallTool ext name args st = (handleError error, log (Call_isSessionExpired error) st1) \<and>
      dispatches (trace (snd (CallTool ext name args st))) = dispatches (trace st) @ [(name, args)] \<and>
      reconnects (trace (snd (CallTool ext name args st))) = reconnects (trace st))"
proof (intro conjI impI)
  show "isSessionExpired ext error = Inr True \<longleftrightarrow>
      isCsrfError ext error \<or>
      (case message_of error of
         Some (JString message) \<Rightarrow>
           String_includes (toLowerCase message) ''session timed out'' \<or>
           String_includes (toLowerCase message) ''csrf token''
       | _ \<Rightarrow> False)"
    by (simp add: isSessionExpired_def message_matches_def message_toLowerCase_def message_of_def
        split: thrown.splits jsvalue.splits)
next
  show "(\<exists>e. isSessionExpired ext error = Inl e) \<longleftrightarrow>
      \<not> isCsrfError ext error \<and>
      (case message_of error of Some (JString message) \<Rightarrow> False | Some m \<Rightarrow> True | None \<Rightarrow> False)"
    by (simp add: isSessionExpired_def message_matches_def message_toLowerCase_def message_of_def
        split: thrown.splits jsvalue.splits)
next
  show "String_includes s searchString \<longleftrightarrow> sublist searchString s"
    by (induction s) (simp_all add: sublist_Cons_right)
next
  assume h: "name \<notin> set AUTH_TOOLS \<and> dispatchTool ext name args st = (Inl error, st1) \<and>
    isSessionExpired ext error = Inr False"
  then have c: "CallTool ext name args st = (handleError error, log (Call_isSessionExpired error) st1)"
    by (simp add: CallTool_not_expired)
  then show "CallTool ext name args st = (handleError error, log (Call_isSessionExpired error) st1)" .
  from h have d: "dispatchTool ext name args st = (Inl error, st1)" by simp
  show "dispatches (trace (snd (CallTool ext name args st))) = dispatches (trace st) @ [(name, args)]"
    using c dispatches_dispatchTool(1) [OF d] by simp
  show "reconnects (trace (snd (CallTool ext name args st))) = reconnects (trace st)"
    using c dispatches_dispatchTool(2) [OF d] by simp
qed

theorem isSessionExpired_iff_witness:
  \<open>''lock'' \<notin> set AUTH_TOOLS \<and>
   dispatchTool scripted ''lock'' (JObject [])
     (start [Inl (McpError ErrorCode_InternalError (JString ''Object is locked by another user''))]
        (Inr ()))
     = (Inl (McpError ErrorCode_InternalError (JString ''Object is locked by another user'')),
        \<lparr>world = \<lparr>handle_outcomes = [], login_outcome = Inr (), client_mode = stateful\<rparr>,
         trace = [Call_dispatchTool ''lock'' (JObject []),
                  Call_handle ObjectLockHandlers ''lock'' (JObject [])]\<rparr>) \<and>
   isSessionExpired scripted
     (McpError ErrorCode_InternalError (JString ''Object is locked by another user'')) = Inr False \<and>
   isSessionExpired scripted (McpError ErrorCode_InternalError (JString ''SESSION TIMED OUT''))
     = Inr True \<and>
   isSessionExpired scripted (ErrorObj (JString ''Invalid CSRF Token'')) = Inr True \<and>
   CallTool scripted ''lock'' (JObject [])
     (start [Inl (McpError ErrorCode_InternalError (JString ''Object is locked by another user''))]
        (Inr ()))
     = (Inr \<lparr>content = [\<lparr>item_type = ''text'',
           item_text = Some ''{"error":"Object is locked by another user","code":-32603}''\<rparr>],
         isError = Some True\<rparr>,
        \<lparr>world = \<lparr>handle_outcomes = [], login_outcome = Inr (), client_mode = stateful\<rparr>,
         trace = [Call_dispatchTool ''lock'' (JObject []),
                  Call_handle ObjectLockHandlers ''lock'' (JObject []),
                  Call_isSessionExpired
                    (McpError ErrorCode_InternalError
                       (JString ''Object is locked by another user''))]\<rparr>)\<close>
  using isSessionExpired_iff [of scripted
      "McpError ErrorCode_InternalError (JString ''Object is locked by another user'')" "[]" "[]"
      "''lock''" "JObject []"
      "start [Inl (McpError ErrorCode_InternalError (JString ''Object is locked by another user''))]
         (Inr ())"
      "\<lparr>world = \<lparr>handle_outcomes = [], login_outcome = Inr (), client_mode = stateful\<rparr>,
         trace = [Call_dispatchTool ''lock'' (JObject []),
                  Call_handle ObjectLockHandlers ''lock'' (JObject [])]\<rparr>"]
  by (simp add: run_defs)

subsection \<open>The result codec\<close>

text \<open>
  Claim C4. For every result (plain data), \<open>serializeResult\<close> does not fail: it returns
  the success envelope with the text that \<open>JSON.stringify\<close> gives under the replacer.
  The replacer turns a BigInt into its decimal string under every key, so when the
  result holds a BigInt \<open>n\<close> in a field, the text of the response contains the decimal
  digits of \<open>n\<close> between double quotes. Without the replacer the same result could not be
  encoded: \<open>JSON.stringify\<close> raises on it.
\<close>

theorem bigint_encoded_as_decimal_string:
  "(\<exists>t. JSON_stringify True v = Inr t \<and>
        serializeResult ext v =
          Inr \<lparr>content = [\<lparr>item_type = ''text'', item_text = t\<rparr>], isError = None\<rparr>) \<and>
   replacer key (JBigInt n) = JString (int_toString n) \<and>
   (holds_bigint n v \<longrightarrow>
      (\<exists>t. serializeResult ext v =
              Inr \<lparr>content = [\<lparr>item_type = ''text'', item_text = Some t\<rparr>], isError = None\<rparr> \<and>
            String_includes t ([CHR 0x22] @ int_toString n @ [CHR 0x22])) \<and>
      (\<exists>e. JSON_stringify False v = Inl e))"
proof (intro conjI impI)
  obtain r where r: "JSON_stringify True v = Inr r"
    using stringify_no_throw(1) [of True "[]" v] by (auto simp: JSON_stringify_def)
  then show "\<exists>t. JSON_stringify True v = Inr t \<and>
        serializeResult ext v =
          Inr \<lparr>content = [\<lparr>item_type = ''text'', item_text = t\<rparr>], isError = None\<rparr>"
    by (simp add: serializeResult_def)
  show "replacer key (JBigInt n) = JString (int_toString n)" by (simp add: replacer_def)
  assume h: "holds_bigint n v"
  from stringify_holds_bigint(1) [of True n v "[]" r] h r
  obtain t where t: "r = Some t" "sublist (QuoteJSONString (int_toString n)) t"
    by (auto simp: JSON_stringify_def)
  then have "String_includes t ([CHR 0x22] @ int_toString n @ [CHR 0x22])"
    by (simp add: String_includes_sublist Quote_decimal)
  with r t show "\<exists>t. serializeResult ext v =
              Inr \<lparr>content = [\<lparr>item_type = ''text'', item_text = Some t\<rparr>], isError = None\<rparr> \<and>
            String_includes t ([CHR 0x22] @ int_toString n @ [CHR 0x22])"
    by (simp add: serializeResult_def)
  from stringify_bigint_throws(1) [of False n v "[]"] h
  show "\<exists>e. JSON_stringify False v = Inl e" by (simp add: JSON_stringify_def)
qed

theorem bigint_encoded_as_decimal_string_witness:
  \<open>holds_bigint 9007199254740993
     (JObject [(''count'', JNumber ''3''),
               (''rows'', JArray [JObject [(''id'', JBigInt 9007199254740993)], JUndefined])]) \<and>
   serializeResult scripted
     (JObject [(''count'', JNumber ''3''),
               (''rows'', JArray [JObject [(''id'', JBigInt 9007199254740993)], JUndefined])])
     = Inr \<lparr>content = [\<lparr>item_type = ''text'',
           item_text = Some ''{"count":3,"rows":[{"id":"9007199254740993"},null]}''\<rparr>],
         isError = None\<rparr> \<and>
   String_includes ''{"count":3,"rows":[{"id":"9007199254740993"},null]}''
     ''"9007199254740993"'' \<and>
   JSON_stringify False
     (JObject [(''count'', JNumber ''3''),
               (''rows'', JArray [JObject [(''id'', JBigInt 9007199254740993)], JUndefined])])
     = Inl (ErrorObj (JString ''Do not know how to serialize a BigInt''))\<close>
  using bigint_encoded_as_decimal_string [of
      "JObject [(''count'', JNumber ''3''),
               (''rows'', JArray [JObject [(''id'', JBigInt 9007199254740993)], JUndefined])]"
      scripted "[]" 9007199254740993]
  by (simp add: run_defs)

subsection \<open>The tool list\<close>

text \<open>
  Claim C5, as the code has it. The list of tools is the concatenation of the handlers'
  lists in the fixed order, with the health check's descriptor last; nothing compares
  names, so the listing never fails on a name that occurs twice, and the names of the
  list are distinct exactly when the handlers' names are distinct and none of them is
  \<open>healthcheck\<close>.
\<close>

theorem ListTools_names:
  "map tool_name (ListTools tools_of) =
     concat (map (\<lambda>p. map tool_name (tools_of p)) provider_order) @ [''healthcheck''] \<and>
   (distinct (map tool_name (ListTools tools_of)) \<longleftrightarrow>
      distinct (concat (map (\<lambda>p. map tool_name (tools_of p)) provider_order)) \<and>
      ''healthcheck'' \<notin> set (concat (map (\<lambda>p. map tool_name (tools_of p)) provider_order)))"
proof -
  have n: "map tool_name (ListTools tools_of) =
     concat (map (\<lambda>p. map tool_name (tools_of p)) provider_order) @ [''healthcheck'']"
    by (simp add: ListTools_def healthcheck_descriptor_def map_concat comp_def)
  show ?thesis unfolding n by auto
qed

text \<open>The claim as stated (a list with a repeated name is never assembled) fails for two
  handler classes that both list \<open>lock\<close>.\<close>

theorem ListTools_duplicate_counterexample:
  "map tool_name (ListTools duplicate_tools) = [''lock'', ''lock'', ''healthcheck''] \<and>
   \<not> distinct (map tool_name (ListTools duplicate_tools))"
  by (simp add: ListTools_def provider_order_def duplicate_tools_def healthcheck_descriptor_def)

subsection \<open>Unknown tool names\<close>

text \<open>For a name with no case in the \<open>switch\<close>, \<open>dispatchTool\<close> throws the
  method-not-found error without calling a handler, and the response is that error's
  envelope, on every path.\<close>

lemma unknown_tool_dispatch:
  "find_case name switch_cases = None \<Longrightarrow>
   dispatchTool ext name args st =
     (Inl (new_McpError ext ErrorCode_MethodNotFound (''Unknown tool: '' @ name)),
      log (Call_dispatchTool name args) st)"
  by (simp add: dispatchTool_def Let_def)

lemma unknown_tool_response:
  assumes "name \<notin> set AUTH_TOOLS" and "find_case name switch_cases = None"
  shows "fst (CallTool ext name args st) =
           error_envelope
             (JString (McpError_message ext ErrorCode_MethodNotFound (''Unknown tool: '' @ name)))
             ErrorCode_MethodNotFound"
    and "handle_calls (trace (snd (CallTool ext name args st))) = handle_calls (trace st)"
proof -
  let ?e = "new_McpError ext ErrorCode_MethodNotFound (''Unknown tool: '' @ name)"
  let ?env = "error_envelope
             (JString (McpError_message ext ErrorCode_MethodNotFound (''Unknown tool: '' @ name)))
             ErrorCode_MethodNotFound"
  have he: "handleError ?e = ?env" by (simp add: handleError_cases new_McpError_def)
  have d: "\<And>s. dispatchTool ext name args s = (Inl ?e, log (Call_dispatchTool name args) s)"
    using assms(2) by (simp add: unknown_tool_dispatch)
  obtain expired where x: "isSessionExpired ext ?e = Inr expired"
    unfolding new_McpError_def
    using isSessionExpired_string_message [of ext ErrorCode_MethodNotFound
        "McpError_message ext ErrorCode_MethodNotFound (''Unknown tool: '' @ name)"]
    by blast
  have "fst (CallTool ext name args st) = ?env \<and>
        handle_calls (trace (snd (CallTool ext name args st))) = handle_calls (trace st)"
  proof (cases expired)
    case False
    with assms(1) d [of st] he x show ?thesis
      by (simp add: CallTool_not_expired log_def handle_calls_append)
  next
    case True
    obtain rc st2 where r: "reconnect ext (log (Call_isSessionExpired ?e) (log (Call_dispatchTool name args) st)) = (rc, st2)"
      by (cases "reconnect ext (log (Call_isSessionExpired ?e) (log (Call_dispatchTool name args) st))")
    note r3 = dispatches_reconnect(3) [OF r]
    show ?thesis
    proof (cases rc)
      case (Inl reconnectError)
      with assms(1) d [of st] True x r r3 he show ?thesis
        by (simp add: CallTool_reconnect_failed log_def handle_calls_append)
    next
      case (Inr u)
      with assms(1) d [of st] d [of st2] True x r
      have "CallTool ext name args st = (handleError ?e, log (Call_dispatchTool name args) st2)"
        using CallTool_retried [of name ext args st ?e "log (Call_dispatchTool name args) st" u st2
            "Inl ?e" "log (Call_dispatchTool name args) st2"]
        by simp
      with r3 he show ?thesis by (simp add: log_def handle_calls_append)
    qed
  qed
  then show "fst (CallTool ext name args st) = ?env"
    and "handle_calls (trace (snd (CallTool ext name args st))) = handle_calls (trace st)"
    by simp_all
qed

text \<open>
  Claim C6 says that an unknown name is never retried and never triggers a reconnect.
  The run of the call \<open>csrf token\<close>: the message of the method-not-found error holds
  the name, \<open>isSessionExpired\<close> finds \<open>csrf token\<close> in it, and the handler reconnects
  (\<open>dropSession\<close>, \<open>login\<close>) and dispatches a second time before it returns the
  method-not-found envelope.
\<close>

theorem unknown_tool_csrf_token_reconnects:
  \<open>''csrf token'' \<notin> set AUTH_TOOLS \<and>
   find_case ''csrf token'' switch_cases = None \<and>
   CallTool scripted ''csrf token'' (JObject []) (start [] (Inr ()))
     = (Inr \<lparr>content = [\<lparr>item_type = ''text'',
           item_text = Some ''{"error":"MCP error -32601: Unknown tool: csrf token","code":-32601}''\<rparr>],
         isError = Some True\<rparr>,
        \<lparr>world = \<lparr>handle_outcomes = [], login_outcome = Inr (), client_mode = stateful\<rparr>,
         trace = [Call_dispatchTool ''csrf token'' (JObject []),
                  Call_isSessionExpired
                    (McpError (- 32601) (JString ''MCP error -32601: Unknown tool: csrf token'')),
                  Call_reconnect,
                  Console_error ''[MCP] Session expired, reconnecting...'' None,
                  Call_dropSession, Set_stateful stateful, Call_login,
                  Console_error ''[MCP] Reconnected successfully'' None,
                  Call_dispatchTool ''csrf token'' (JObject [])]\<rparr>)\<close>
  by (simp add: run_defs CallTool_def retry_loop.simps try_block_def)

subsection \<open>Session-management tools\<close>

text \<open>
  Claim C7. A call whose name is in \<open>AUTH_TOOLS\<close> (\<open>login\<close>, \<open>logout\<close>,
  \<open>dropSession\<close>) is one call of \<open>handle\<close> on the \<open>AuthHandlers\<close> object and nothing
  else: the outcome is the encoded result or \<open>handleError\<close> of the error, and the trace
  gains that one call only, so \<open>dispatchTool\<close>, \<open>isSessionExpired\<close> and \<open>reconnect\<close>
  are not entered, whatever the error is.
\<close>

theorem auth_tools_bypass:
  "name \<in> set AUTH_TOOLS \<and> handle ext AuthHandlers name args (world st) = (outcome, w) \<longrightarrow>
   CallTool ext name args st =
     ((case outcome of Inr result \<Rightarrow> serializeResult ext result | Inl error \<Rightarrow> handleError error),
      st\<lparr>world := w, trace := trace st @ [Call_handle AuthHandlers name args]\<rparr>) \<and>
   dispatches (trace (snd (CallTool ext name args st))) = dispatches (trace st) \<and>
   reconnects (trace (snd (CallTool ext name args st))) = reconnects (trace st) \<and>
   handle_calls (trace (snd (CallTool ext name args st))) =
     handle_calls (trace st) @ [(AuthHandlers, name, args)]"
  by (simp add: CallTool_auth dispatches_append handle_calls_append reconnects_append reconnects_def)

theorem auth_tools_bypass_witness:
  \<open>''login'' \<in> set AUTH_TOOLS \<and>
   handle scripted AuthHandlers ''login'' (JObject [])
     (world (start [Inl (McpError ErrorCode_InternalError
                           (JString ''Login failed: Session timed out''))] (Inr ())))
     = (Inl (McpError ErrorCode_InternalError (JString ''Login failed: Session timed out'')),
        \<lparr>handle_outcomes = [], login_outcome = Inr (), client_mode = stateful\<rparr>) \<and>
   isSessionExpired scripted
     (McpError ErrorCode_InternalError (JString ''Login failed: Session timed out'')) = Inr True \<and>
   CallTool scripted ''login'' (JObject [])
     (start [Inl (McpError ErrorCode_InternalError
                    (JString ''Login failed: Session timed out''))] (Inr ()))
     = (Inr \<lparr>content = [\<lparr>item_type = ''text'',
           item_text = Some ''{"error":"Login failed: Session timed out","code":-32603}''\<rparr>],
         isError = Some True\<rparr>,
        \<lparr>world = \<lparr>handle_outcomes = [], login_outcome = Inr (), client_mode = stateful\<rparr>,
         trace = [Call_handle AuthHandlers ''login'' (JObject [])]\<rparr>)\<close>
  using auth_tools_bypass [of "''login''" scripted "JObject []"
      "start [Inl (McpError ErrorCode_InternalError
                     (JString ''Login failed: Session timed out''))] (Inr ())"
      "Inl (McpError ErrorCode_InternalError (JString ''Login failed: Session timed out''))"
      "\<lparr>handle_outcomes = [], login_outcome = Inr (), client_mode = stateful\<rparr>"]
  by (simp add: run_defs)

subsection \<open>Other failures\<close>

text \<open>
  Claim C8, as the code has it. A failure of the first dispatch for which
  \<open>isSessionExpired\<close> returns false is passed to \<open>handleError\<close> with no retry and no
  reconnect. The response carries the failure's own message and code when the failure is
  an \<open>McpError\<close>; any other failure that \<open>handleError\<close> normalizes is flattened to
  \<open>Internal server error\<close> with the internal-error code.
\<close>

theorem other_failure_not_retried:
  "name \<notin> set AUTH_TOOLS \<and> dispatchTool ext name args st = (Inl error, st1) \<and>
   isSessionExpired ext error = Inr False \<longrightarrow>
     CallTool ext name args st = (handleError error, log (Call_isSessionExpired error) st1) \<and>
     handleError error =
       (case error of
          NonError v \<Rightarrow> error_envelope (JString ''Internal server error'') ErrorCode_InternalError
        | NoStringForm e \<Rightarrow> Inl e
        | ErrorObj message \<Rightarrow>
            error_envelope (JString ''Internal server error'') ErrorCode_InternalError
        | McpError code message \<Rightarrow> error_envelope message code) \<and>
     (case error of
        McpError code (JString message) \<Rightarrow>
          response_error_is (fst (CallTool ext name args st)) message
      | McpError code message \<Rightarrow> True
      | NoStringForm e \<Rightarrow> True
      | _ \<Rightarrow> response_error_is (fst (CallTool ext name args st)) ''Internal server error'') \<and>
     dispatches (trace (snd (CallTool ext name args st))) = dispatches (trace st) @ [(name, args)] \<and>
     reconnects (trace (snd (CallTool ext name args st))) = reconnects (trace st)"
proof (intro impI)
  assume h: "name \<notin> set AUTH_TOOLS \<and> dispatchTool ext name args st = (Inl error, st1) \<and>
    isSessionExpired ext error = Inr False"
  then have c: "CallTool ext name args st = (handleError error, log (Call_isSessionExpired error) st1)"
    by (simp add: CallTool_not_expired)
  from h have d: "dispatchTool ext name args st = (Inl error, st1)" by simp
  from c have f: "fst (CallTool ext name args st) = handleError error" by simp
  have e: "(case error of
        McpError code (JString message) \<Rightarrow> response_error_is (handleError error) message
      | McpError code message \<Rightarrow> True
      | NoStringForm e \<Rightarrow> True
      | _ \<Rightarrow> response_error_is (handleError error) ''Internal server error'')"
    by (simp add: handleError_cases response_error_is_error_envelope
        split: thrown.splits jsvalue.splits)
  have t: "dispatches (trace (snd (CallTool ext name args st))) = dispatches (trace st) @ [(name, args)]"
    "reconnects (trace (snd (CallTool ext name args st))) = reconnects (trace st)"
    using c dispatches_dispatchTool [OF d] by simp_all
  show "CallTool ext name args st = (handleError error, log (Call_isSessionExpired error) st1) \<and>
     handleError error =
       (case error of
          NonError v \<Rightarrow> error_envelope (JString ''Internal server error'') ErrorCode_InternalError
        | NoStringForm e \<Rightarrow> Inl e
        | ErrorObj message \<Rightarrow>
            error_envelope (JString ''Internal server error'') ErrorCode_InternalError
        | McpError code message \<Rightarrow> error_envelope message code) \<and>
     (case error of
        McpError code (JString message) \<Rightarrow>
          response_error_is (fst (CallTool ext name args st)) message
      | McpError code message \<Rightarrow> True
      | NoStringForm e \<Rightarrow> True
      | _ \<Rightarrow> response_error_is (fst (CallTool ext name args st)) ''Internal server error'') \<and>
     dispatches (trace (snd (CallTool ext name args st))) = dispatches (trace st) @ [(name, args)] \<and>
     reconnects (trace (snd (CallTool ext name args st))) = reconnects (trace st)"
    unfolding f using c e t handleError_cases [of error] by blast
qed

theorem other_failure_not_retried_witness:
  \<open>''lock'' \<notin> set AUTH_TOOLS \<and>
   dispatchTool scripted ''lock'' (JObject [])
     (start [Inl (McpError ErrorCode_InternalError (JString ''Object is locked by another user''))]
        (Inr ()))
     = (Inl (McpError ErrorCode_InternalError (JString ''Object is locked by another user'')),
        \<lparr>world = \<lparr>handle_outcomes = [], login_outcome = Inr (), client_mode = stateful\<rparr>,
         trace = [Call_dispatchTool ''lock'' (JObject []),
                  Call_handle ObjectLockHandlers ''lock'' (JObject [])]\<rparr>) \<and>
   isSessionExpired scripted
     (McpError ErrorCode_InternalError (JString ''Object is locked by another user'')) = Inr False \<and>
   fst (CallTool scripted ''lock'' (JObject [])
     (start [Inl (McpError ErrorCode_InternalError (JString ''Object is locked by another user''))]
        (Inr ())))
     = Inr \<lparr>content = [\<lparr>item_type = ''text'',
           item_text = Some ''{"error":"Object is locked by another user","code":-32603}''\<rparr>],
         isError = Some True\<rparr> \<and>
   response_error_is (fst (CallTool scripted ''lock'' (JObject [])
     (start [Inl (McpError ErrorCode_InternalError (JString ''Object is locked by another user''))]
        (Inr ())))) ''Object is locked by another user'' \<and>
   dispatches (trace (snd (CallTool scripted ''lock'' (JObject [])
     (start [Inl (McpError ErrorCode_InternalError (JString ''Object is locked by another user''))]
        (Inr ())))))
     = [(''lock'', JObject [])] \<and>
   reconnects (trace (snd (CallTool scripted ''lock'' (JObject [])
     (start [Inl (McpError ErrorCode_InternalError (JString ''Object is locked by another user''))]
        (Inr ())))))
     = 0\<close>
  using other_failure_not_retried [of "''lock''" scripted "JObject []"
      "start [Inl (McpError ErrorCode_InternalError (JString ''Object is locked by another user''))]
         (Inr ())"
      "McpError ErrorCode_InternalError (JString ''Object is locked by another user'')"
      "\<lparr>world = \<lparr>handle_outcomes = [], login_outcome = Inr (), client_mode = stateful\<rparr>,
         trace = [Call_dispatchTool ''lock'' (JObject []),
                  Call_handle ObjectLockHandlers ''lock'' (JObject [])]\<rparr>"]
  by (simp add: run_defs)

text \<open>The claim as stated (the response carries the failure's own message) fails for a
  plain \<open>Error\<close> thrown by a handler.\<close>

theorem other_failure_counterexample:
  \<open>''lock'' \<notin> set AUTH_TOOLS \<and>
   fst (dispatchTool scripted ''lock'' (JObject [])
     (start [Inl (ErrorObj (JString ''Object is locked by another user''))] (Inr ())))
     = Inl (ErrorObj (JString ''Object is locked by another user'')) \<and>
   isSessionExpired scripted (ErrorObj (JString ''Object is locked by another user'')) = Inr False \<and>
   fst (CallTool scripted ''lock'' (JObject [])
     (start [Inl (ErrorObj (JString ''Object is locked by another user''))] (Inr ())))
     = Inr \<lparr>content = [\<lparr>item_type = ''text'',
           item_text = Some ''{"error":"Internal server error","code":-32603}''\<rparr>],
         isError = Some True\<rparr> \<and>
   \<not> response_error_is
     (fst (CallTool scripted ''lock'' (JObject [])
        (start [Inl (ErrorObj (JString ''Object is locked by another user''))] (Inr ()))))
     ''Object is locked by another user''\<close>
  by (simp add: run_defs CallTool_def retry_loop.simps try_block_def)

subsection \<open>Thrown values that are not errors\<close>

text \<open>For a thrown value that is plain data and that the classifier does not recognise,
  \<open>isSessionExpired\<close> returns false, so the call is not retried; the first statement of
  \<open>handleError\<close> replaces the value by the \<open>Error\<close> whose message is its string form
  (a thrown string is its own string form, an array is its elements joined by commas),
  and the response is the generic internal-error envelope.\<close>

lemma non_error_thrown_value:
  assumes "\<not> isCsrfError ext (NonError v)"
  shows "isSessionExpired ext (NonError v) = Inr False"
    and "coerce_error (NonError v) = Inr (ErrorObj (JString (ToString v)))"
    and "handleError (NonError v) =
           error_envelope (JString ''Internal server error'') ErrorCode_InternalError"
    and "name \<notin> set AUTH_TOOLS \<Longrightarrow> dispatchTool ext name args st = (Inl (NonError v), st1) \<Longrightarrow>
         CallTool ext name args st =
           (error_envelope (JString ''Internal server error'') ErrorCode_InternalError,
            log (Call_isSessionExpired (NonError v)) st1)"
proof -
  show x: "isSessionExpired ext (NonError v) = Inr False"
    using assms by (simp add: isSessionExpired_def)
  show "coerce_error (NonError v) = Inr (ErrorObj (JString (ToString v)))"
    by (simp add: coerce_error_def instanceof_Error_def)
  show g: "handleError (NonError v) =
           error_envelope (JString ''Internal server error'') ErrorCode_InternalError"
    by (simp add: handleError_cases)
  assume "name \<notin> set AUTH_TOOLS" "dispatchTool ext name args st = (Inl (NonError v), st1)"
  with x g show "CallTool ext name args st =
           (error_envelope (JString ''Internal server error'') ErrorCode_InternalError,
            log (Call_isSessionExpired (NonError v)) st1)"
    by (simp add: CallTool_not_expired)
qed

lemma non_error_thrown_string:
  \<open>coerce_error (NonError (JString ''Session timed out'')) = Inr (ErrorObj (JString ''Session timed out'')) \<and>
   coerce_error (NonError (JArray [JNumber ''1'', JNull, JString ''a''])) = Inr (ErrorObj (JString ''1,,a'')) \<and>
   isSessionExpired scripted (NonError (JString ''Session timed out'')) = Inr False \<and>
   isSessionExpired scripted (ErrorObj (JString ''Session timed out'')) = Inr True \<and>
   handleError (NonError (JString ''Session timed out''))
     = Inr \<lparr>content = [\<lparr>item_type = ''text'',
           item_text = Some ''{"error":"Internal server error","code":-32603}''\<rparr>],
         isError = Some True\<rparr>\<close>
  by (simp add: run_defs)

text \<open>
  Claim C9 says that every thrown value that is not an \<open>Error\<close> instance and that the
  classifier does not recognise is coerced into an error and normalized into the generic
  internal-error envelope. The run of a call whose handler throws a value with no string
  form (\<open>Object.create(null)\<close>, say): \<open>isSessionExpired\<close> returns false and the call is
  not retried, but \<open>String(error)\<close> in \<open>handleError\<close> throws a \<open>TypeError\<close>, and the
  handler ends with that throw instead of a response.
\<close>

theorem thrown_value_without_string_form:
  \<open>''lock'' \<notin> set AUTH_TOOLS \<and>
   \<not> instanceof_Error
       (NoStringForm (ErrorObj (JString ''Cannot convert object to primitive value''))) \<and>
   \<not> isCsrfError scripted
       (NoStringForm (ErrorObj (JString ''Cannot convert object to primitive value''))) \<and>
   isSessionExpired scripted
     (NoStringForm (ErrorObj (JString ''Cannot convert object to primitive value''))) = Inr False \<and>
   handleError (NoStringForm (ErrorObj (JString ''Cannot convert object to primitive value'')))
     = Inl (ErrorObj (JString ''Cannot convert object to primitive value'')) \<and>
   CallTool scripted ''lock'' (JObject [])
     (start [Inl (NoStringForm (ErrorObj (JString ''Cannot convert object to primitive value'')))]
        (Inr ()))
     = (Inl (ErrorObj (JString ''Cannot convert object to primitive value'')),
        \<lparr>world = \<lparr>handle_outcomes = [], login_outcome = Inr (), client_mode = stateful\<rparr>,
         trace = [Call_dispatchTool ''lock'' (JObject []),
                  Call_handle ObjectLockHandlers ''lock'' (JObject []),
                  Call_isSessionExpired
                    (NoStringForm
                       (ErrorObj (JString ''Cannot convert object to primitive value'')))]\<rparr>)\<close>
  by (simp add: run_defs CallTool_def retry_loop.simps try_block_def)

subsection \<open>The end of the loop\<close>

text \<open>
  Claim C10 says that every path of both iterations returns, so that every execution of
  the handler returns from within the loop. The loop never runs out (lemma
  \<open>retry_loop_never_exhausted\<close>), so the line after it is not reached; but the calls of
  \<open>isSessionExpired\<close> and \<open>handleError\<close> in the \<open>catch\<close> clause are not guarded. The run
  of a call whose handler throws an \<open>Error\<close> whose message is \<open>undefined\<close>: on the first
  iteration \<open>error.message.toLowerCase()\<close> in \<open>isSessionExpired\<close> throws a \<open>TypeError\<close>,
  and the handler ends with that throw: it does not return.
\<close>

theorem handler_throws_from_catch:
  \<open>''lock'' \<notin> set AUTH_TOOLS \<and>
   \<not> isCsrfError scripted (ErrorObj JUndefined) \<and>
   isSessionExpired scripted (ErrorObj JUndefined)
     = Inl (ErrorObj (JString ''Cannot read properties of undefined (reading 'toLowerCase')'')) \<and>
   retry_loop scripted ''lock'' (JObject []) 0 (start [Inl (ErrorObj JUndefined)] (Inr ()))
     = (Some (Inl (ErrorObj
          (JString ''Cannot read properties of undefined (reading 'toLowerCase')''))),
        \<lparr>world = \<lparr>handle_outcomes = [], login_outcome = Inr (), client_mode = stateful\<rparr>,
         trace = [Call_dispatchTool ''lock'' (JObject []),
                  Call_handle ObjectLockHandlers ''lock'' (JObject []),
                  Call_isSessionExpired (ErrorObj JUndefined)]\<rparr>) \<and>
   CallTool scripted ''lock'' (JObject []) (start [Inl (ErrorObj JUndefined)] (Inr ()))
     = (Inl (ErrorObj (JString ''Cannot read properties of undefined (reading 'toLowerCase')'')),
        \<lparr>world = \<lparr>handle_outcomes = [], login_outcome = Inr (), client_mode = stateful\<rparr>,
         trace = [Call_dispatchTool ''lock'' (JObject []),
                  Call_handle ObjectLockHandlers ''lock'' (JObject []),
                  Call_isSessionExpired (ErrorObj JUndefined)]\<rparr>)\<close>
  by (simp add: run_defs CallTool_def retry_loop.simps try_block_def)

end
